theory Spec2Isabelle
  imports Complex_Main "HOL-Library.Log_Nat" "HOL-Library.Multiset" "HOL-Library.Word"
begin

section \<open>JavaScript numbers\<close>

text \<open>
  A JavaScript number is an IEEE-754 double. The model keeps the exact rational value of
  a finite double; every arithmetic operation computes the exact result and rounds it to
  the nearest double, ties to the even significand (\<open>fl\<close>). The exponent range of a
  double (overflow beyond \<open>2^1024\<close>, subnormals below \<open>2^-1022\<close>) is not
  modelled: the quantities of this program are counts, intensities, their means and
  array indices, which stay far from both ends.
\<close>

definition round_even :: "rat \<Rightarrow> int" where
  "round_even q =
     (let f = \<lfloor>q\<rfloor>; d = q - of_int f
      in if d < 1 / 2 then f
         else if 1 / 2 < d then f + 1
         else if even f then f else f + 1)"

text \<open>The binary exponent of a positive rational: \<open>2^e \<le> x < 2^(e+1)\<close>.\<close>

definition expo :: "rat \<Rightarrow> int" where
  "expo x =
     (let (p, q) = quotient_of x; d = bitlen p - bitlen q
      in if 2 powi d \<le> x then d else d - 1)"

text \<open>Rounding to a 53-bit significand.\<close>

definition fl :: "rat \<Rightarrow> rat" where
  "fl x =
     (if x = 0 then 0
      else let u = 2 powi (expo \<bar>x\<bar> - 52)
           in sgn x * of_int (round_even (\<bar>x\<bar> / u)) * u)"

definition js_add :: "rat \<Rightarrow> rat \<Rightarrow> rat" where
  "js_add x y = fl (x + y)"

definition js_mul :: "rat \<Rightarrow> rat \<Rightarrow> rat" where
  "js_mul x y = fl (x * y)"

definition js_div :: "rat \<Rightarrow> rat \<Rightarrow> rat" where
  "js_div x y = fl (x / y)"

text \<open>
  \<open>Math.round\<close> returns the integer closest to its argument, the one towards
  \<open>+\<infinity>\<close> on a tie; \<open>Math.floor\<close> is the floor.
\<close>

definition Math_round :: "rat \<Rightarrow> int" where
  "Math_round x = \<lfloor>x + 1 / 2\<rfloor>"

definition Math_floor :: "rat \<Rightarrow> int" where
  "Math_floor x = \<lfloor>x\<rfloor>"

section \<open>JavaScript strings\<close>

text \<open>
  A JavaScript string is a sequence of UTF-16 code units; \<open>length\<close> and
  \<open>substring\<close> count code units. \<open>str\<close> embeds an ASCII literal.
\<close>

type_synonym js_string = "16 word list"

definition str :: "string \<Rightarrow> js_string" where
  "str s = map (\<lambda>c. of_nat (of_char c)) s"

text \<open>
  \<open>toLowerCase\<close> on the Basic Latin and Latin-1 letters. Beyond Latin-1 the case
  mapping of JavaScript produces an ASCII letter only from U+212A (\<open>k\<close>) and from
  U+0130 (\<open>i\<close> followed by U+0307); neither can complete one of the ASCII keywords
  this program searches for, so the keyword tests below see the same result.
\<close>

definition toLowerUnit :: "16 word \<Rightarrow> 16 word" where
  "toLowerUnit c =
     (if (0x41 \<le> c \<and> c \<le> 0x5A) \<or> (0xC0 \<le> c \<and> c \<le> 0xDE \<and> c \<noteq> 0xD7)
      then c + 0x20 else c)"

definition toLowerCase :: "js_string \<Rightarrow> js_string" where
  "toLowerCase s = map toLowerUnit s"

fun startsWith :: "js_string \<Rightarrow> js_string \<Rightarrow> bool" where
  "startsWith s [] = True"
| "startsWith [] (k # ks) = False"
| "startsWith (c # cs) (k # ks) = (c = k \<and> startsWith cs ks)"

fun js_includes :: "js_string \<Rightarrow> js_string \<Rightarrow> bool" where
  "js_includes [] k = (k = [])"
| "js_includes (c # cs) k = (startsWith (c # cs) k \<or> js_includes cs k)"

text \<open>The white space and line terminators that \<open>trim\<close> strips.\<close>

definition isWhiteSpace :: "16 word \<Rightarrow> bool" where
  "isWhiteSpace c =
     (c \<in> set [0x09, 0x0A, 0x0B, 0x0C, 0x0D, 0x20, 0xA0, 0x1680, 0x2028, 0x2029,
                0x202F, 0x205F, 0x3000, 0xFEFF]
      \<or> (0x2000 \<le> c \<and> c \<le> 0x200A))"

definition trim :: "js_string \<Rightarrow> js_string" where
  "trim s = rev (dropWhile isWhiteSpace (rev (dropWhile isWhiteSpace s)))"

section \<open>Mood entries\<close>

text \<open>
  \<open>MoodType = keyof typeof MOOD_TYPES\<close>: the sixteen mood categories. The mood
  selector writes no other value into \<open>mood_entries.mood_type\<close>. The constructors
  carry the display labels; \<open>mood_key\<close> is the property name of a category, the
  string the column holds.
\<close>

datatype MoodType =
    Happy | Excited | Grateful | Calm | Content | Sad | Anxious | Stressed
  | Angry | Frustrated | Confused | Tired | Lonely | Hopeful | Motivated | Peaceful

fun mood_key :: "MoodType \<Rightarrow> js_string" where
  "mood_key Happy = str ''happy''"
| "mood_key Excited = str ''excited''"
| "mood_key Grateful = str ''grateful''"
| "mood_key Calm = str ''calm''"
| "mood_key Content = str ''content''"
| "mood_key Sad = str ''sad''"
| "mood_key Anxious = str ''anxious''"
| "mood_key Stressed = str ''stressed''"
| "mood_key Angry = str ''angry''"
| "mood_key Frustrated = str ''frustrated''"
| "mood_key Confused = str ''confused''"
| "mood_key Tired = str ''tired''"
| "mood_key Lonely = str ''lonely''"
| "mood_key Hopeful = str ''hopeful''"
| "mood_key Motivated = str ''motivated''"
| "mood_key Peaceful = str ''peaceful''"

text \<open>
  A row of \<open>mood_entries\<close>. The column \<open>date\<close> is a calendar date
  (\<open>YYYY-MM-DD\<close>); the model keeps its day number, the count of days since
  1970-01-01, so that \<open>new Date(entry.date).getTime()\<close> is \<open>getTime (date entry)\<close>.
  \<open>created_at\<close> is kept as an instant in milliseconds.
\<close>

record MoodEntry =
  entry_id :: js_string
  user_id :: js_string
  mood_type :: MoodType
  secondary_moods :: "MoodType list"
  intensity :: int
  entry_notes :: "js_string option"
  triggers :: "js_string list"
  created_at :: int
  date :: int

definition msPerDay :: int where
  "msPerDay = 1000 * 60 * 60 * 24"

definition getTime :: "int \<Rightarrow> int" where
  "getTime d = d * msPerDay"

section \<open>The streak of the mood dashboard\<close>

text \<open>
  \<open>getStreakCount\<close> of the dashboard, over the component's \<open>moodEntries\<close> and the
  day number of today (\<open>new Date().toISOString().split('T')[0]\<close>).
  The timestamps are integers and every difference taken is a multiple of
  \<open>msPerDay\<close>, so the quotient is exact and \<open>Math.floor\<close> of it is the integer
  quotient (lemma \<open>day_quotient_exact\<close> below). \<open>Array.prototype.sort\<close> is stable; its comparator orders by descending
  date, which is \<open>sort_key\<close> on the negated timestamp.
\<close>

fun streak_loop :: "int \<Rightarrow> nat \<Rightarrow> MoodEntry list \<Rightarrow> nat" where
  "streak_loop currentDate streak [] = streak"
| "streak_loop currentDate streak (entry # rest) =
     (let entryDate = date entry;
          diff = (getTime currentDate - getTime entryDate) div msPerDay
      in if diff \<le> 1 then streak_loop entryDate (streak + 1) rest
         else streak)"

definition getStreakCount :: "int \<Rightarrow> MoodEntry list \<Rightarrow> nat" where
  "getStreakCount today moodEntries =
     (if length moodEntries = 0 then 0
      else
        let sortedEntries = sort_key (\<lambda>e. - getTime (date e)) moodEntries
        in case sortedEntries of
             [] \<Rightarrow> 0
           | latestEntry # _ \<Rightarrow>
               (let daysDiff = (getTime today - getTime (date latestEntry)) div msPerDay
                in if daysDiff > 1 then 0
                   else streak_loop (date latestEntry) 0 sortedEntries))"

section \<open>Mood statistics\<close>

text \<open>
  \<open>moodService.getMoodStats\<close>, from the entries that \<open>getMoodEntriesInRange\<close>
  returned. \<open>moodDistribution\<close> is an object used as a dictionary; its own keys are
  mood keys, none of them an array index, so \<open>Object.entries\<close> lists them in
  insertion order. The model keeps the properties as an association list in that order.
\<close>

record MoodStats =
  totalEntries :: nat
  averageIntensity :: rat
  mostCommonMood :: js_string
  moodDistribution :: "(MoodType \<times> nat) list"
  weeklyTrend :: "(int \<times> MoodType \<times> int) list"

text \<open>\<open>moodDistribution[k] = (moodDistribution[k] || 0) + 1\<close>\<close>

fun increment :: "(MoodType \<times> nat) list \<Rightarrow> MoodType \<Rightarrow> (MoodType \<times> nat) list" where
  "increment [] k = [(k, 0 + 1)]"
| "increment ((k', c) # rest) k =
     (if k' = k then (k', c + 1) # rest else (k', c) # increment rest k)"

definition countMoods :: "MoodEntry list \<Rightarrow> (MoodType \<times> nat) list" where
  "countMoods entries = fold (\<lambda>entry distribution. increment distribution (mood_type entry)) entries []"

text \<open>
  \<open>Object.entries(moodDistribution).sort(([,a], [,b]) => b - a)[0]?.[0] || ''\<close>:
  a stable sort by descending count, then the key of the first pair.
\<close>

definition topMood :: "(MoodType \<times> nat) list \<Rightarrow> js_string" where
  "topMood distribution =
     (case sort_key (\<lambda>(k, c). - int c) distribution of
        [] \<Rightarrow> []
      | (k, c) # _ \<Rightarrow> (if mood_key k = [] then [] else mood_key k))"

definition sumIntensity :: "MoodEntry list \<Rightarrow> rat" where
  "sumIntensity entries =
     fold (\<lambda>entry acc. js_add acc (of_int (intensity entry))) entries 0"

definition getMoodStats :: "MoodEntry list \<Rightarrow> MoodStats" where
  "getMoodStats entries =
     (if length entries = 0 then
        \<lparr> totalEntries = 0, averageIntensity = 0, mostCommonMood = [],
          moodDistribution = [], weeklyTrend = [] \<rparr>
      else
        let total = length entries;
            average = js_div (sumIntensity entries) (of_nat total);
            distribution = countMoods entries;
            trend = map (\<lambda>entry. (date entry, mood_type entry, intensity entry))
                      (take 7 entries)
        in \<lparr> totalEntries = total,
             averageIntensity = js_div (of_int (Math_round (js_mul average 10))) 10,
             mostCommonMood = topMood distribution,
             moodDistribution = distribution,
             weeklyTrend = trend \<rparr>)"

section \<open>Canned responses\<close>

text \<open>
  \<open>generateFallbackResponse\<close>. \<open>rnd\<close> is the value of \<open>Math.random()\<close>; the
  optional parameter \<open>mood\<close> is \<open>None\<close> when it is left out (\<open>undefined\<close>), and
  an empty string is falsy. Reading an array beyond its end gives \<open>undefined\<close>, here
  \<open>None\<close>.
\<close>

definition bullet :: "16 word" where
  "bullet = 0x2022"

definition moodResponses :: "js_string list" where
  "moodResponses =
     [ str (''I understand you're sharing your feelings with me. It's important to''
          @ '' acknowledge and process our emotions. Would you like to talk more about''
          @ '' what's affecting your mood today?''),
       str (''Thank you for opening up about how you're feeling. Emotions are a natural''
          @ '' part of the human experience. What do you think might be contributing to''
          @ '' these feelings?''),
       str (''I appreciate you sharing your emotional state. Sometimes talking through our''
          @ '' feelings can help us understand them better. Is there anything specific''
          @ '' that's been on your mind?''),
       str (''It sounds like you're experiencing some strong emotions. Remember that it's''
          @ '' okay to feel whatever you're feeling. Would you like to explore what might''
          @ '' be behind these feelings?''),
       str (''Your feelings are valid and important. Sometimes our moods can tell us a lot''
          @ '' about what we need. Have you noticed any patterns in what affects your''
          @ '' emotional state?'') ]"

definition storyResponses :: "js_string list" where
  "storyResponses =
     [ str (''Great storytelling starts with a compelling hook! Consider opening with''
          @ '' conflict, mystery, or an intriguing character moment. What genre or theme''
          @ '' are you exploring?''),
       str (''Every good narrative needs three key elements: engaging characters, a clear''
          @ '' conflict, and emotional stakes. What's the central tension in your story?''),
       str (''For narrative structure, try the three-act format: Setup (25%),''
          @ '' Confrontation (50%), and Resolution (25%). What's your story's main turning''
          @ '' point?''),
       str (''Character development drives great narration. Give your characters clear''
          @ '' motivations, flaws, and growth arcs. Who is your protagonist and what do''
          @ '' they want?'') ]"

definition voiceResponses :: "js_string list" where
  "voiceResponses =
     [ str (''For effective voice-over scripts, write conversationally and include natural''
          @ '' pauses. Read your script aloud to test its flow. What type of content are''
          @ '' you creating?''),
       str (''Voice narration works best with clear, concise language. Avoid complex''
          @ '' sentences and use active voice. Are you writing for educational, marketing,''
          @ '' or entertainment content?''),
       str (''Consider your audience when crafting narration. Formal tone for business,''
          @ '' casual for social media, warm for educational content. What's your target''
          @ '' audience?''),
       str (''Good narration pacing includes strategic pauses, emphasis on key points, and''
          @ '' varied sentence lengths. What's the main message you want to convey?'') ]"

definition contentResponses :: "js_string list" where
  "contentResponses =
     [ str (''Content creation starts with understanding your audience's needs and''
          @ '' interests. What problem are you solving or what value are you providing?''),
       str (''Effective content follows the AIDA framework: Attention, Interest, Desire,''
          @ '' Action. How can you grab attention in your opening?''),
       str (''For engaging content, use storytelling techniques: relatable characters,''
          @ '' conflict, and resolution. What story can you tell to illustrate your point?''),
       str (''Content that resonates combines useful information with emotional''
          @ '' connection. What emotions do you want your audience to feel?'') ]"

definition generalResponses :: "js_string list" where
  "generalResponses =
     [ str (''That's an interesting point! I'm here to help with both your creative''
          @ '' projects and emotional well-being. How would you like to develop this idea''
          @ '' further?''),
       str (''I'd love to help you explore that concept. Whether it's for content creation''
          @ '' or personal reflection, what specific aspect would you like to focus on?''),
       str (''Great question! I can assist with narration, storytelling, and also provide''
          @ '' a supportive space to discuss your feelings. What's your main goal today?''),
       str (''That sounds like it could make for compelling content or meaningful''
          @ '' self-reflection! How are you planning to approach this?'') ]"

definition helpResponse :: js_string where
  "helpResponse =
       str ''I'm NarumateAI, your AI assistant for creating engaging narrated content''
     @ str '' and supporting your emotional well-being! I can help you with:\<newline>''
     @ str ''\<newline>''
     @ bullet # str '' Storytelling techniques and narrative structure\<newline>''
     @ bullet # str '' Script writing for voice-overs\<newline>''
     @ bullet # str '' Content creation strategies\<newline>''
     @ bullet # str '' Processing feelings and emotions\<newline>''
     @ bullet # str '' Mood tracking and self-reflection\<newline>''
     @ bullet # str '' Character development\<newline>''
     @ bullet # str '' Dialogue writing\<newline>''
     @ str ''\<newline>''
     @ str ''What specific aspect would you like to explore?''"

definition pick :: "js_string list \<Rightarrow> rat \<Rightarrow> js_string option" where
  "pick responses rnd =
     (let i = Math_floor (js_mul rnd (of_nat (length responses)))
      in if 0 \<le> i \<and> i < int (length responses) then Some (responses ! nat i) else None)"

definition truthy :: "js_string option \<Rightarrow> bool" where
  "truthy v = (case v of None \<Rightarrow> False | Some s \<Rightarrow> s \<noteq> [])"

definition generateFallbackResponse ::
  "js_string \<Rightarrow> js_string option \<Rightarrow> rat \<Rightarrow> js_string option" where
  "generateFallbackResponse userInput mood rnd =
     (let input = toLowerCase userInput
      in if js_includes input (str ''feel'') \<or> js_includes input (str ''mood'')
            \<or> js_includes input (str ''emotion'') \<or> truthy mood
         then pick moodResponses rnd
         else if js_includes input (str ''story'') \<or> js_includes input (str ''narrative'')
            \<or> js_includes input (str ''plot'')
         then pick storyResponses rnd
         else if js_includes input (str ''voice'') \<or> js_includes input (str ''narration'')
            \<or> js_includes input (str ''script'')
         then pick voiceResponses rnd
         else if js_includes input (str ''content'') \<or> js_includes input (str ''create'')
            \<or> js_includes input (str ''write'')
         then pick contentResponses rnd
         else if js_includes input (str ''help'') \<or> js_includes input (str ''how'')
            \<or> js_includes input (str ''what'')
         then Some helpResponse
         else pick generalResponses rnd)"

section \<open>Conversations and messages in the database\<close>

text \<open>
  The tables \<open>conversations\<close> and \<open>messages\<close> as lists of rows, and the adapter
  functions over them. The adapter catches every failure of the database client and
  answers \<open>null\<close> or \<open>false\<close>; whether a call succeeds is decided outside the
  program, so each function takes the outcome of its calls as an argument. The row
  identifiers and \<open>created_at\<close> of a message are generated by the database and
  never read by the program; they are left out of the message rows.
\<close>

datatype Role = User | Assistant

record Conversation =
  conv_id :: js_string
  title :: js_string
  conv_created_at :: int
  updated_at :: int
  conv_user_id :: js_string

record DbMessage =
  conversation_id :: js_string
  db_role :: Role
  db_content :: js_string
  db_timestamp :: int

record Store =
  conversations :: "Conversation list"
  messages_table :: "DbMessage list"

definition createConversation ::
  "Store \<Rightarrow> bool \<Rightarrow> js_string \<Rightarrow> int \<Rightarrow> js_string \<Rightarrow> Store \<times> Conversation option" where
  "createConversation db ok newId now newTitle =
     (if ok then
        let row = \<lparr> conv_id = newId, title = newTitle, conv_created_at = now,
                    updated_at = now, conv_user_id = str ''anonymous'' \<rparr>
        in (db\<lparr>conversations := conversations db @ [row]\<rparr>, Some row)
      else (db, None))"

text \<open>
  An update of a conversation row also fires the trigger
  \<open>update_conversations_updated_at\<close>, which sets \<open>updated_at\<close>.
\<close>

definition updateConversationTitle ::
  "Store \<Rightarrow> bool \<Rightarrow> int \<Rightarrow> js_string \<Rightarrow> js_string \<Rightarrow> Store \<times> bool" where
  "updateConversationTitle db ok now cid newTitle =
     (if ok then
        (db\<lparr>conversations :=
              map (\<lambda>c. if conv_id c = cid then c\<lparr>title := newTitle, updated_at := now\<rparr> else c)
                (conversations db)\<rparr>, True)
      else (db, False))"

text \<open>
  \<open>messageService.addMessage\<close>: the insert, which the foreign key rejects when the
  conversation does not exist, then the update of \<open>updated_at\<close>, whose result is
  not inspected.
\<close>

definition addMessage ::
  "Store \<Rightarrow> bool \<Rightarrow> bool \<Rightarrow> int \<Rightarrow> js_string \<Rightarrow> Role \<Rightarrow> js_string \<Rightarrow> Store \<times> DbMessage option" where
  "addMessage db insertOk touchOk now cid role content =
     (if insertOk \<and> cid \<in> conv_id ` set (conversations db) then
        let row = \<lparr> conversation_id = cid, db_role = role, db_content = content,
                    db_timestamp = now \<rparr>;
            db1 = db\<lparr>messages_table := messages_table db @ [row]\<rparr>;
            db2 = (if touchOk then
                     db1\<lparr>conversations :=
                           map (\<lambda>c. if conv_id c = cid then c\<lparr>updated_at := now\<rparr> else c)
                             (conversations db1)\<rparr>
                   else db1)
        in (db2, Some row)
      else (db, None))"

section \<open>The chat component\<close>

text \<open>
  The state of \<open>ChatInterface\<close>. A function of the component sees the state of the
  render that created it: inside \<open>sendMessage\<close> and \<open>saveMessageToDb\<close> the names
  \<open>messages\<close> and \<open>currentConversationId\<close> are those of the state the turn started
  from, and the setters take effect in the state the turn ends with.
  \<open>msg_id\<close> is the number whose decimal digits are the identifier.
\<close>

record Message =
  msg_id :: int
  role :: Role
  content :: js_string
  timestamp :: int

datatype Model = CHAT | CONVERSATIONAL | SUPPORTIVE | CREATIVE

record ChatState =
  messages :: "Message list"
  input :: js_string
  isLoading :: bool
  currentConversationId :: "js_string option"
  isSupabaseConnected :: bool
  userId :: js_string
  aiModel :: Model
  useAdvancedMode :: bool

record SaveOutcome =
  insertOk :: bool
  touchOk :: bool
  titleOk :: bool

definition saveMessageToDb ::
  "ChatState \<Rightarrow> Store \<Rightarrow> SaveOutcome \<Rightarrow> int \<Rightarrow> Role \<Rightarrow> js_string \<Rightarrow> Store" where
  "saveMessageToDb st db outcome now r text =
     (if \<not> isSupabaseConnected st \<or> \<not> truthy (currentConversationId st) then db
      else
        let cid = the (currentConversationId st);
            db1 = fst (addMessage db (insertOk outcome) (touchOk outcome) now cid r text)
        in if r = User \<and> length (messages st) = 0 then
             let newTitle = (if length text > 50 then take 50 text @ str ''...'' else text)
             in fst (updateConversationTitle db1 (titleOk outcome) now cid newTitle)
           else db1)"

text \<open>
  The calls of the inference service that \<open>sendMessage\<close> makes, and what comes back:
  every method of the service either returns a string or throws (a failed request, a
  response that is not a success). A result that is not a string makes \<open>trim\<close> throw
  inside the same \<open>try\<close>, and counts as \<open>Threw\<close>.
\<close>

datatype ContentType = Story | Script | Narration

datatype Request =
    SupportiveResponse js_string MoodType int
  | CreativeContent js_string ContentType
  | ChatResponse "(Role \<times> js_string) list" Model rat nat

datatype Outcome = Threw | Returned js_string

text \<open>
  What the surroundings decide during one turn: the clock, \<open>Math.random()\<close>, the
  identifier of the conversation row when one is created (\<open>None\<close> when the creation
  fails), what \<open>getTodaysMoodEntry\<close> answers before the generation and after its
  failure, the inference service, and the outcomes of the two saves.
\<close>

record Env =
  sendTime :: int
  replyTime :: int
  randomValue :: rat
  created :: "js_string option"
  moodAtSend :: "MoodEntry option"
  moodAtFailure :: "MoodEntry option"
  generate :: "Request \<Rightarrow> Outcome"
  userSave :: SaveOutcome
  assistantSave :: SaveOutcome

text \<open>The routing of one turn: which request goes to the inference service.\<close>

definition requestFor :: "ChatState \<Rightarrow> MoodEntry option \<Rightarrow> js_string \<Rightarrow> Request" where
  "requestFor st fetched currentInput =
     (let chatMessages = map (\<lambda>m. (role m, content m)) (messages st) @ [(User, currentInput)];
          lower = toLowerCase currentInput
      in if useAdvancedMode st then
           (let todaysMood = (if isSupabaseConnected st then fetched else None)
            in if todaysMood \<noteq> None
                  \<and> (js_includes lower (str ''feel'') \<or> js_includes lower (str ''mood''))
               then SupportiveResponse currentInput (mood_type (the todaysMood))
                      (intensity (the todaysMood))
               else if js_includes lower (str ''story'') \<or> js_includes lower (str ''script'')
                  \<or> js_includes lower (str ''narrat'')
               then CreativeContent currentInput
                      (if js_includes lower (str ''script'') then Script
                       else if js_includes lower (str ''narrat'') then Narration
                       else Story)
               else ChatResponse chatMessages (aiModel st) (fl (8 / 10)) 1000)
         else ChatResponse chatMessages CHAT (fl (7 / 10)) 1000)"

text \<open>The text of the assistant message: the \<open>try\<close> block and its \<open>catch\<close>.\<close>

definition assistantContent :: "ChatState \<Rightarrow> Env \<Rightarrow> js_string \<Rightarrow> js_string option" where
  "assistantContent st env currentInput =
     (case generate env (requestFor st (moodAtSend env) currentInput) of
        Returned text \<Rightarrow>
          (let trimmed = trim text
           in if trimmed = [] then generateFallbackResponse currentInput None (randomValue env)
              else Some trimmed)
      | Threw \<Rightarrow>
          (let todaysMood = (if isSupabaseConnected st then moodAtFailure env else None)
           in generateFallbackResponse currentInput
                (map_option (\<lambda>entry. mood_key (mood_type entry)) todaysMood) (randomValue env)))"

text \<open>
  \<open>sendMessage\<close>, from the state and the database a turn starts with to those it
  ends with. The result is \<open>None\<close> only when the canned text is \<open>undefined\<close>,
  which the range of \<open>Math.random()\<close> rules out.
\<close>

definition sendMessage :: "ChatState \<Rightarrow> Store \<Rightarrow> Env \<Rightarrow> (ChatState \<times> Store) option" where
  "sendMessage st db env =
     (if trim (input st) = [] \<or> isLoading st then Some (st, db)
      else
        let currentInput = trim (input st);
            userMessage = \<lparr> msg_id = sendTime env, role = User, content = currentInput,
                            timestamp = sendTime env \<rparr>;
            (db1, conversationId) =
              (if isSupabaseConnected st \<and> \<not> truthy (currentConversationId st) then
                 (case created env of
                    None \<Rightarrow> (db, currentConversationId st)
                  | Some newId \<Rightarrow>
                      (fst (createConversation db True newId (sendTime env) (str ''New Conversation'')),
                       Some newId))
               else (db, currentConversationId st));
            db2 = (if isSupabaseConnected st \<and> truthy conversationId
                   then saveMessageToDb st db1 (userSave env) (sendTime env) User currentInput
                   else db1)
        in case assistantContent st env currentInput of
             None \<Rightarrow> None
           | Some text \<Rightarrow>
               (let assistantMessage = \<lparr> msg_id = replyTime env + 1, role = Assistant,
                                          content = text, timestamp = replyTime env \<rparr>;
                    db3 = (if isSupabaseConnected st \<and> truthy conversationId
                           then saveMessageToDb st db2 (assistantSave env) (replyTime env)
                                  Assistant text
                           else db2)
                in Some (st\<lparr> messages := messages st @ [userMessage, assistantMessage],
                             input := [], isLoading := False,
                             currentConversationId := conversationId \<rparr>, db3)))"

section \<open>Notions of the specification\<close>

text \<open>
  The arithmetic mean of the intensities and its rounding to one decimal place, half up,
  both as exact rationals.
\<close>

definition arithmeticMean :: "MoodEntry list \<Rightarrow> rat" where
  "arithmeticMean entries =
     of_int (sum_list (map intensity entries)) / of_nat (length entries)"

definition roundHalfUp1 :: "rat \<Rightarrow> rat" where
  "roundHalfUp1 x = of_int \<lfloor>x * 10 + 1 / 2\<rfloor> / 10"

text \<open>A number is a double when rounding leaves it unchanged.\<close>

definition isDouble :: "rat \<Rightarrow> bool" where
  "isDouble x = (fl x = x)"

text \<open>The count of a mood in a distribution, \<open>moodDistribution[m] || 0\<close>.\<close>

definition countOf :: "(MoodType \<times> nat) list \<Rightarrow> MoodType \<Rightarrow> nat" where
  "countOf distribution m = (case map_of distribution m of None \<Rightarrow> 0 | Some c \<Rightarrow> c)"

text \<open>
  The topic buckets of the canned responses, in the words of the specification: the
  input is matched against the keywords of each topic without regard to case, the topics
  are tried in the order mood and feelings, story, narration and voice, content creation,
  help, and the general bucket is what remains. A mood that was handed over counts as a
  match of the first topic.
\<close>

definition mentions :: "js_string \<Rightarrow> string \<Rightarrow> bool" where
  "mentions userInput keyword = js_includes (toLowerCase userInput) (str keyword)"

definition fallbackBucket :: "js_string \<Rightarrow> js_string option \<Rightarrow> js_string list" where
  "fallbackBucket userInput mood =
     (if mentions userInput ''feel'' \<or> mentions userInput ''mood''
         \<or> mentions userInput ''emotion'' \<or> truthy mood
      then moodResponses
      else if mentions userInput ''story'' \<or> mentions userInput ''narrative''
         \<or> mentions userInput ''plot''
      then storyResponses
      else if mentions userInput ''voice'' \<or> mentions userInput ''narration''
         \<or> mentions userInput ''script''
      then voiceResponses
      else if mentions userInput ''content'' \<or> mentions userInput ''create''
         \<or> mentions userInput ''write''
      then contentResponses
      else if mentions userInput ''help'' \<or> mentions userInput ''how''
         \<or> mentions userInput ''what''
      then [helpResponse]
      else generalResponses)"

text \<open>Every text that \<open>generateFallbackResponse\<close> can draw from.\<close>

definition fallbackTexts :: "js_string list" where
  "fallbackTexts =
     moodResponses @ storyResponses @ voiceResponses @ contentResponses
       @ [helpResponse] @ generalResponses"

text \<open>
  The row that the database makes of an insert by \<open>addMoodEntry\<close> without options:
  no secondary moods, no notes, no triggers.
\<close>

definition moodEntryRow :: "js_string \<Rightarrow> int \<Rightarrow> MoodType \<Rightarrow> int \<Rightarrow> MoodEntry" where
  "moodEntryRow newId day m i =
     \<lparr> entry_id = newId, user_id = str ''anonymous'', mood_type = m, secondary_moods = [],
       intensity = i, entry_notes = None, triggers = [], created_at = getTime day,
       date = day \<rparr>"

section \<open>Sample data\<close>

text \<open>
  Four entries on consecutive days, two moods with two entries each, intensities with
  mean \<open>5/4\<close>; a component state in advanced mode with an empty message list and an
  existing conversation; a database with that conversation; a turn during which every
  call of the inference service throws, and one during which it answers with blanks;
  the same state with an input about a story. Then a fresh session: no conversation yet,
  an empty database, a turn during which the inference service answers, and the two
  turns that follow from there.
\<close>

definition exampleEntries :: "MoodEntry list" where
  "exampleEntries =
     [ moodEntryRow (str ''e1'') 20000 Calm 1, moodEntryRow (str ''e2'') 19999 Sad 1,
       moodEntryRow (str ''e3'') 19998 Sad 1, moodEntryRow (str ''e4'') 19997 Calm 2 ]"

definition exampleMood :: MoodEntry where
  "exampleMood = moodEntryRow (str ''m1'') 20000 Anxious 4"

definition exampleState :: ChatState where
  "exampleState =
     \<lparr> messages = [], input = str ''I feel overwhelmed'', isLoading = False,
       currentConversationId = Some (str ''c1''), isSupabaseConnected = True,
       userId = str ''anonymous'', aiModel = CHAT, useAdvancedMode = True \<rparr>"

definition exampleStore :: Store where
  "exampleStore =
     \<lparr> conversations =
         [\<lparr> conv_id = str ''c1'', title = str ''New Conversation'', conv_created_at = 0,
            updated_at = 0, conv_user_id = str ''anonymous'' \<rparr>],
       messages_table = [] \<rparr>"

definition allSaved :: SaveOutcome where
  "allSaved = \<lparr> insertOk = True, touchOk = True, titleOk = True \<rparr>"

definition failingEnv :: Env where
  "failingEnv =
     \<lparr> sendTime = 1000, replyTime = 2000, randomValue = 1 / 2, created = None,
       moodAtSend = Some exampleMood, moodAtFailure = Some exampleMood,
       generate = (\<lambda>request. Threw), userSave = allSaved, assistantSave = allSaved \<rparr>"

definition blankEnv :: Env where
  "blankEnv = failingEnv\<lparr> generate := (\<lambda>request. Returned (str ''   '')) \<rparr>"

definition storyState :: ChatState where
  "storyState = exampleState\<lparr> input := str ''Tell me a story'' \<rparr>"

definition freshState :: ChatState where
  "freshState =
     \<lparr> messages = [], input = str ''Hello world'', isLoading = False,
       currentConversationId = None, isSupabaseConnected = True,
       userId = str ''anonymous'', aiModel = CHAT, useAdvancedMode = False \<rparr>"

definition emptyStore :: Store where
  "emptyStore = \<lparr> conversations = [], messages_table = [] \<rparr>"

definition replyingEnv :: Env where
  "replyingEnv =
     \<lparr> sendTime = 1000, replyTime = 2000, randomValue = 1 / 2, created = Some (str ''c2''),
       moodAtSend = None, moodAtFailure = None,
       generate = (\<lambda>request. Returned (str ''Hi there'')),
       userSave = allSaved, assistantSave = allSaved \<rparr>"

definition firstTurn :: "ChatState \<times> Store" where
  "firstTurn = the (sendMessage freshState emptyStore replyingEnv)"

definition secondTurn :: "ChatState \<times> Store" where
  "secondTurn =
     the (sendMessage ((fst firstTurn)\<lparr> input := str ''Second message'' \<rparr>) (snd firstTurn)
            replyingEnv)"

section \<open>Statistics of an empty range\<close>

text \<open>
  C5: for an empty entry list \<open>getMoodStats\<close> returns the zero-valued result: no
  entries, average intensity 0, the empty string as most common mood, an empty
  distribution and an empty trend. The function is total, so this is its result and
  not a failure.
\<close>

theorem getMoodStats_empty:
  "getMoodStats [] =
     \<lparr> totalEntries = 0, averageIntensity = 0, mostCommonMood = [],
       moodDistribution = [], weeklyTrend = [] \<rparr>"
  by (simp add: getMoodStats_def)

section \<open>Rounding to a double\<close>

text \<open>
  The rounding error of \<open>fl\<close>, and the numbers it leaves unchanged.
\<close>

lemma round_even_error: "\<bar>of_int (round_even q) - q\<bar> \<le> 1 / 2"
proof -
  define f where "f = \<lfloor>q\<rfloor>"
  have f: "of_int f \<le> q" "q < of_int f + 1" unfolding f_def by linarith+
  consider "q - of_int f < 1 / 2" | "1 / 2 < q - of_int f" | "q - of_int f = 1 / 2"
    by linarith
  then show ?thesis
  proof cases
    case 1
    then have "round_even q = f" by (simp add: round_even_def f_def Let_def)
    then show ?thesis using f 1 by (simp add: abs_if)
  next
    case 2
    then have "round_even q = f + 1" by (simp add: round_even_def f_def Let_def)
    then show ?thesis using f 2 by (simp add: abs_if)
  next
    case 3
    then have "round_even q = f \<or> round_even q = f + 1"
      by (simp add: round_even_def f_def Let_def)
    then show ?thesis using f 3 by (auto simp: abs_if)
  qed
qed

lemma round_even_of_int: "round_even (of_int z) = z"
  by (simp add: round_even_def)

lemma round_even_nonneg: "0 \<le> q \<Longrightarrow> 0 \<le> round_even q"
  unfolding round_even_def Let_def by (auto simp: le_floor_iff) 

lemma expo_bounds:
  assumes "0 < x"
  shows "2 powi (expo x) \<le> x \<and> x < 2 powi (expo x + 1)"
proof -
  obtain p q where pq: "quotient_of x = (p, q)" by (cases "quotient_of x")
  have q: "0 < q" using quotient_of_denom_pos[OF pq] .
  have x: "x = of_int p / of_int q" using quotient_of_div[OF pq] .
  have p: "0 < p" using assms x q by (simp add: zero_less_divide_iff)
  define bp bq where "bp = bitlen p" and "bq = bitlen q"
  have bp: "2 ^ nat (bp - 1) \<le> p" "p < 2 ^ nat bp" 
    using bitlen_bounds[OF p] by (simp_all add: bp_def)
  have bq: "2 ^ nat (bq - 1) \<le> q" "q < 2 ^ nat bq" 
    using bitlen_bounds[OF q] by (simp_all add: bq_def)
  have bp1: "1 \<le> bp" using p by (simp add: bp_def bitlen_alt_def)
  have bq1: "1 \<le> bq" using q by (simp add: bq_def bitlen_alt_def)
  have P1: "(2::rat) powi (bp - 1) \<le> of_int p"
  proof -
    have "(2::rat) powi (bp - 1) = of_int (2 ^ nat (bp - 1))" using bp1 by (simp add: power_int_def)
    also have "\<dots> \<le> of_int p" using bp(1) by (simp only: of_int_le_iff)
    finally show ?thesis .
  qed
  have P2: "of_int p < (2::rat) powi bp"
  proof -
    have "of_int p < (of_int (2 ^ nat bp) :: rat)" using bp(2) by (simp only: of_int_less_iff)
    also have "\<dots> = 2 powi bp" using bp1 by (simp add: power_int_def)
    finally show ?thesis .
  qed
  have Q1: "(2::rat) powi (bq - 1) \<le> of_int q"
  proof -
    have "(2::rat) powi (bq - 1) = of_int (2 ^ nat (bq - 1))" using bq1 by (simp add: power_int_def)
    also have "\<dots> \<le> of_int q" using bq(1) by (simp only: of_int_le_iff)
    finally show ?thesis .
  qed
  have Q2: "of_int q < (2::rat) powi bq"
  proof -
    have "of_int q < (of_int (2 ^ nat bq) :: rat)" using bq(2) by (simp only: of_int_less_iff)
    also have "\<dots> = 2 powi bq" using bq1 by (simp add: power_int_def)
    finally show ?thesis .
  qed
  have qpos: "(0::rat) < of_int q" using q by simp
  have lo: "(2::rat) powi (bp - bq - 1) \<le> x"
  proof -
    have "(2::rat) powi (bp - bq - 1) * of_int q \<le> 2 powi (bp - bq - 1) * 2 powi bq"
      using Q2 by (intro mult_left_mono) auto
    also have "\<dots> = 2 powi (bp - 1)" by (simp flip: power_int_add)
    also have "\<dots> \<le> of_int p" by (rule P1)
    finally show ?thesis using qpos by (simp add: x pos_le_divide_eq)
  qed
  have hi: "x < (2::rat) powi (bp - bq + 1)"
  proof -
    have "of_int p < (2::rat) powi bp" by (rule P2)
    also have "\<dots> = 2 powi (bp - bq + 1) * 2 powi (bq - 1)" by (simp flip: power_int_add)
    also have "\<dots> \<le> 2 powi (bp - bq + 1) * of_int q"
      using Q1 by (intro mult_left_mono) auto
    finally show ?thesis using qpos by (simp add: x pos_divide_less_eq)
  qed
  show ?thesis
  proof (cases "(2::rat) powi (bp - bq) \<le> x")
    case True
    then have "expo x = bp - bq" by (simp add: expo_def pq bp_def bq_def)
    with True hi show ?thesis by simp
  next
    case False
    then have "expo x = bp - bq - 1" by (simp add: expo_def pq bp_def bq_def)
    with False lo show ?thesis by simp
  qed
qed

lemma fl_pos:
  assumes "0 < x"
  shows "fl x = of_int (round_even (x / 2 powi (expo x - 52))) * 2 powi (expo x - 52)"
  using assms by (simp add: fl_def Let_def)

lemma fl_error:
  assumes "0 < x"
  shows "\<bar>fl x - x\<bar> \<le> x / 2 ^ 53"
proof -
  define u :: rat where "u = 2 powi (expo x - 52)"
  have u: "0 < u" by (simp add: u_def)
  have "(of_int (round_even (x / u)) - x / u) * u = fl x - x"
    using u by (simp add: fl_pos[OF assms] u_def[symmetric] left_diff_distrib)
  then have "\<bar>fl x - x\<bar> = \<bar>(of_int (round_even (x / u)) - x / u) * u\<bar>" by simp
  also have "\<dots> = \<bar>of_int (round_even (x / u)) - x / u\<bar> * u"
    using u by (simp add: abs_mult)
  also have "\<dots> \<le> 1 / 2 * u" using round_even_error[of "x / u"] u by (intro mult_right_mono) auto
  also have "\<dots> = 2 powi (expo x) / 2 ^ 53" 
    by (simp add: u_def power_int_diff)
  also have "\<dots> \<le> x / 2 ^ 53" using expo_bounds[OF assms] by (simp add: divide_right_mono)
  finally show ?thesis .
qed

lemma fl_nonneg: "0 \<le> x \<Longrightarrow> 0 \<le> fl x"
  by (cases "x = 0") (auto simp: fl_def Let_def intro!: mult_nonneg_nonneg round_even_nonneg)

lemma fl_of_int_pos:
  assumes "0 < z" "z < 2 ^ 53"
  shows "fl (of_int z) = of_int z"
proof -
  have x: "(0::rat) < of_int z" using assms by simp
  define e where "e = expo (of_int z)"
  have b: "2 powi e \<le> (of_int z :: rat)" using expo_bounds[OF x] by (simp add: e_def)
  have "(of_int z :: rat) < of_int (2 ^ 53)" using assms(2) by (simp only: of_int_less_iff)
  also have "\<dots> = 2 powi 53" by simp
  finally have "(2::rat) powi e < 2 powi 53" using b by linarith
  then have e: "e < 53" by (metis power_int_increasing not_less one_le_numeral)
  define k where "k = nat (52 - e)"
  have u: "(2::rat) powi (e - 52) = 1 / 2 ^ k"
    using e by (simp add: k_def power_int_def field_simps)
  define U :: rat where "U = 2 powi (e - 52)"
  have U: "U = 1 / 2 ^ k" by (simp add: U_def u)
  have "of_int z / U = (of_int (z * 2 ^ k) :: rat)" by (simp add: U)
  then have r: "round_even (of_int z / U) = z * 2 ^ k"
    by (simp only: round_even_of_int)
  have "fl (of_int z) = of_int (round_even (of_int z / U)) * U"
    unfolding fl_pos[OF x] e_def[symmetric] U_def ..
  then have "fl (of_int z) = of_int (z * 2 ^ k) * U"
    by (simp only: r)
  then show ?thesis by (simp add: U)
qed

lemma fl_0: "fl 0 = 0" by (simp add: fl_def)

lemma fl_of_int_nonneg: "0 \<le> z \<Longrightarrow> z < 2 ^ 53 \<Longrightarrow> fl (of_int z) = of_int z"
  by (cases "z = 0") (simp_all add: fl_0 fl_of_int_pos)

lemma fl_minus: "fl (- x) = - fl x"
  by (simp add: fl_def Let_def)

lemma fl_of_int: "\<bar>z\<bar> < 2 ^ 53 \<Longrightarrow> fl (of_int z) = of_int z"
proof (cases "0 \<le> z")
  case True
  assume "\<bar>z\<bar> < 2 ^ 53"
  with True show ?thesis by (intro fl_of_int_nonneg) simp_all
next
  case False
  assume "\<bar>z\<bar> < 2 ^ 53"
  with False have "fl (of_int (- z)) = of_int (- z)" by (intro fl_of_int_nonneg) simp_all
  then have "fl (- of_int z) = - of_int z" by simp
  then show ?thesis by (simp add: fl_minus)
qed

section \<open>The average intensity\<close>

lemma fold_js_add_exact:
  assumes "\<forall>e\<in>set es. 1 \<le> intensity e \<and> intensity e \<le> 5"
    and "0 \<le> a" and "a + 5 * int (length es) < 2 ^ 53"
  shows "fold (\<lambda>entry acc. js_add acc (of_int (intensity entry))) es (of_int a)
           = of_int (a + sum_list (map intensity es))"
  using assms
proof (induction es arbitrary: a)
  case Nil
  then show ?case by simp
next
  case (Cons e es)
  have i: "1 \<le> intensity e" "intensity e \<le> 5" using Cons.prems(1) by auto
  have "js_add (of_int a) (of_int (intensity e)) = fl (of_int (a + intensity e))"
    by (simp add: js_add_def)
  also have "\<dots> = of_int (a + intensity e)"
    using i Cons.prems by (intro fl_of_int_nonneg) auto
  finally have step: "js_add (of_int a) (of_int (intensity e)) = of_int (a + intensity e)" .
  have "fold (\<lambda>entry acc. js_add acc (of_int (intensity entry))) es (of_int (a + intensity e))
          = of_int (a + intensity e + sum_list (map intensity es))"
    using i Cons.prems by (intro Cons.IH) auto
  then show ?case by (simp add: step add.assoc)
qed

lemma sumIntensity_exact:
  assumes "\<forall>e\<in>set es. 1 \<le> intensity e \<and> intensity e \<le> 5" "length es < 2 ^ 32"
  shows "sumIntensity es = of_int (sum_list (map intensity es))"
proof -
  have "5 * int (length es) < 5 * 2 ^ 32" using assms(2) by simp
  then have "0 + 5 * int (length es) < 2 ^ 53" by simp
  from fold_js_add_exact[OF assms(1) _ this] show ?thesis by (simp add: sumIntensity_def)
qed

lemma sum_intensity_bounds:
  assumes "\<forall>e\<in>set es. 1 \<le> intensity e \<and> intensity e \<le> 5"
  shows "int (length es) \<le> sum_list (map intensity es) \<and> sum_list (map intensity es) \<le> 5 * int (length es)"
  using assms by (induction es) auto

lemma fl_rel:
  assumes "0 < x"
  shows "fl x - x \<le> x / 9007199254740992" and "x - fl x \<le> x / 9007199254740992"
  using fl_error[OF assms] by (simp_all only: abs_le_iff power_numeral, simp_all)

lemma two_roundings:
  assumes "1 \<le> a" "a \<le> 5"
  shows "fl (fl a * 10) - 10 * a \<le> 1 / 70368744177664"
    and "10 * a - fl (fl a * 10) \<le> 1 / 70368744177664"
proof -
  have a: "0 < a" using assms by simp
  note 1 = fl_rel[OF a]
  have b6: "fl a \<le> 6" "1 / 2 \<le> fl a" using 1 assms by linarith+
  then have b: "0 < fl a * 10" by simp
  note 2 = fl_rel[OF b]
  show "fl (fl a * 10) - 10 * a \<le> 1 / 70368744177664"
    and "10 * a - fl (fl a * 10) \<le> 1 / 70368744177664"
    using 1 2 b6 assms by linarith+
qed

text \<open>
  The means that lie exactly between two tenths are the odd multiples of \<open>1/20\<close>
  between 1 and 5. On each of them the quotient and the product by 10 round so that the
  tie is still a tie, which \<open>Math.round\<close> resolves upwards.
\<close>

lemma half_table:
  "\<forall>k\<in>{11..50}. fl (fl ((2 * of_int k - 1) / 20) * 10) = (2 * of_int k - 1) / 2"
proof -
  have "list_all (\<lambda>k. fl (fl ((2 * of_int k - 1) / 20) * 10) = (2 * of_int k - 1) / 2) [11..50]"
    by code_simp
  then show ?thesis by (simp only: list_all_iff set_upto)
qed


lemma round_mean:
  fixes S N :: int
  assumes N: "0 < N" "N < 2 ^ 32" and S: "N \<le> S" "S \<le> 5 * N"
  shows "Math_round (js_mul (js_div (of_int S) (of_int N)) 10)
           = \<lfloor>(of_int S / of_int N :: rat) * 10 + 1 / 2\<rfloor>"
proof -
  define a :: rat where "a = of_int S / of_int N"
  define y where "y = fl (fl a * 10)"
  define k0 where "k0 = \<lfloor>a * 10 + 1 / 2\<rfloor>"
  define t where "t = a * 10 + 1 / 2 - of_int k0"
  define m where "m = 20 * S + N - 2 * N * k0"
  have Npos: "(0::rat) < of_int N" using N by simp
  have S': "(of_int N :: rat) \<le> of_int S" "(of_int S :: rat) \<le> 5 * of_int N"
  proof -
    show "(of_int N :: rat) \<le> of_int S" using S(1) by (simp only: of_int_le_iff)
    have "(of_int S :: rat) \<le> of_int (5 * N)" using S(2) by (simp only: of_int_le_iff)
    then show "(of_int S :: rat) \<le> 5 * of_int N" by simp
  qed
  have a: "1 \<le> a" "a \<le> 5"
  proof -
    show "1 \<le> a" unfolding a_def using S'(1) Npos by (simp only: le_divide_eq_1_pos)
    show "a \<le> 5" unfolding a_def using S'(2) Npos by (simp only: pos_divide_le_eq)
  qed
  have t: "0 \<le> t" "t < 1" unfolding t_def k0_def by linarith+
  have m_eq: "of_int m = t * (2 * of_int N)"
    using Npos unfolding m_def t_def a_def by (simp add: field_simps)
  have m: "0 \<le> m" "m < 2 * N"
  proof -
    have "(0::rat) \<le> of_int m" unfolding m_eq using t Npos by simp
    then show "0 \<le> m" by simp
    have "of_int m < 1 * (2 * of_int N :: rat)" unfolding m_eq using t Npos
      by (intro mult_strict_right_mono) auto
    then have "(of_int m :: rat) < of_int (2 * N)" by simp
    then show "m < 2 * N" by (simp only: of_int_less_iff)
  qed
  note e = two_roundings[OF a, folded y_def]
  have "\<lfloor>y + 1 / 2\<rfloor> = k0"
  proof (cases "m = 0")
    case True
    then have "t = 0" using m_eq Npos by simp
    then have a10: "a * 10 = of_int k0 - 1 / 2" by (simp add: t_def)
    then have ak: "a = (2 * of_int k0 - 1) / 20" by simp
    have "(21 / 2 :: rat) \<le> of_int k0" "of_int k0 \<le> (101 / 2 :: rat)" using a a10 by linarith+
    then have "k0 \<in> {11..50}" by simp
    with half_table have "y = (2 * of_int k0 - 1) / 2" unfolding y_def ak by blast
    then have "y + 1 / 2 = of_int k0" by simp
    then show ?thesis by simp
  next
    case False
    with m have m1: "1 \<le> m" "m \<le> 2 * N - 1" by simp_all
    have N33: "2 * of_int N < (2 ^ 33 :: rat)"
    proof -
      have "(of_int (2 * N) :: rat) < of_int (2 ^ 33)" using N by (simp only: of_int_less_iff) simp
      then show ?thesis by simp
    qed
    have tt: "t = of_int m / (2 * of_int N)" using m_eq Npos by (simp add: field_simps)
    have "1 / (2 * of_int N) \<le> t" unfolding tt using m1 Npos by (intro divide_right_mono) auto
    moreover have "(1 / 2 ^ 33 :: rat) < 1 / (2 * of_int N)"
      using N33 Npos by (intro divide_strict_left_mono) auto
    ultimately have lo: "1 / 2 ^ 33 < t" by linarith
    have "1 - t = of_int (2 * N - m) / (2 * of_int N)" using Npos by (simp add: tt field_simps)
    moreover have "1 / (2 * of_int N) \<le> of_int (2 * N - m) / (2 * of_int N :: rat)"
      using m1 Npos by (intro divide_right_mono) auto
    moreover have "(1 / 2 ^ 33 :: rat) < 1 / (2 * of_int N)"
      using N33 Npos by (intro divide_strict_left_mono) auto
    ultimately have hi: "1 / 2 ^ 33 < 1 - t" by linarith
    have "of_int k0 \<le> y + 1 / 2" "y + 1 / 2 < of_int k0 + 1"
      using e lo hi unfolding t_def by simp_all
    then show ?thesis by (intro floor_unique) 
  qed
  then show ?thesis by (simp add: Math_round_def js_mul_def js_div_def y_def a_def k0_def)
qed

lemma fl_tenths_range:
  assumes "10 \<le> k" "k \<le> 50"
  shows "1 \<le> fl (of_int k / 10) \<and> fl (of_int k / 10) \<le> 5
         \<and> \<bar>fl (of_int k / 10) - of_int k / 10\<bar> \<le> 1 / 2 ^ 50"
proof -
  consider "k = 10" | "k = 50" | "11 \<le> k" "k \<le> 49" using assms by linarith
  then show ?thesis
  proof cases
    case 1
    have "fl (of_int 1) = of_int 1" by (rule fl_of_int_pos) simp_all
    then show ?thesis using 1 by simp
  next
    case 2
    have "fl (of_int 5) = of_int 5" by (rule fl_of_int_pos) simp_all
    then show ?thesis using 2 by simp
  next
    case 3
    define x :: rat where "x = of_int k / 10"
    have "(of_int 11 :: rat) \<le> of_int k" "(of_int k :: rat) \<le> of_int 49"
      using 3 by (simp_all only: of_int_le_iff)
    then have x: "11 / 10 \<le> x" "x \<le> 49 / 10" by (simp_all add: x_def)
    then have "0 < x" by simp
    note r = fl_rel[OF this]
    have "1 \<le> fl x" "fl x \<le> 5" "\<bar>fl x - x\<bar> \<le> 1 / 1125899906842624"
      using r x by linarith+
    then show ?thesis unfolding x_def[symmetric] by simp
  qed
qed

lemma averageIntensity_value:
  assumes "entries \<noteq> []" "length entries < 2 ^ 32"
    and "\<forall>e\<in>set entries. 1 \<le> intensity e \<and> intensity e \<le> 5"
  shows "averageIntensity (getMoodStats entries) = fl (roundHalfUp1 (arithmeticMean entries))"
    and "10 \<le> \<lfloor>arithmeticMean entries * 10 + 1 / 2\<rfloor>"
    and "\<lfloor>arithmeticMean entries * 10 + 1 / 2\<rfloor> \<le> 50"
proof -
  define N where "N = int (length entries)"
  define S where "S = sum_list (map intensity entries)"
  have N: "0 < N" "N < 2 ^ 32" using assms(1,2) by (simp_all add: N_def)
  have S: "N \<le> S" "S \<le> 5 * N" using sum_intensity_bounds[OF assms(3)] by (simp_all add: N_def S_def)
  have sum: "sumIntensity entries = of_int S"
    using sumIntensity_exact[OF assms(3,2)] by (simp add: S_def)
  have mean: "arithmeticMean entries = of_int S / of_int N"
    by (simp add: arithmeticMean_def S_def N_def)
  have "averageIntensity (getMoodStats entries)
          = js_div (of_int (Math_round (js_mul (js_div (of_int S) (of_int N)) 10))) 10"
    using assms(1) by (simp add: getMoodStats_def Let_def sum N_def)
  also have "\<dots> = js_div (of_int \<lfloor>(of_int S / of_int N :: rat) * 10 + 1 / 2\<rfloor>) 10"
    by (simp only: round_mean[OF N S])
  finally show "averageIntensity (getMoodStats entries) = fl (roundHalfUp1 (arithmeticMean entries))"
    by (simp add: js_div_def roundHalfUp1_def mean)
  have Npos: "(0::rat) < of_int N" using N by simp
  have "(of_int N :: rat) \<le> of_int S" using S(1) by (simp only: of_int_le_iff)
  then have a1: "1 \<le> arithmeticMean entries"
    unfolding mean using Npos by (simp only: le_divide_eq_1_pos)
  have "(of_int S :: rat) \<le> of_int (5 * N)" using S(2) by (simp only: of_int_le_iff)
  then have "(of_int S :: rat) \<le> 5 * of_int N" by simp
  then have a5: "arithmeticMean entries \<le> 5"
    unfolding mean using Npos by (simp only: pos_divide_le_eq)
  show "10 \<le> \<lfloor>arithmeticMean entries * 10 + 1 / 2\<rfloor>" using a1 by (simp add: le_floor_iff)
  show "\<lfloor>arithmeticMean entries * 10 + 1 / 2\<rfloor> \<le> 50" using a5 by (simp add: floor_le_iff)
qed

text \<open>
  C1: for a non-empty list of entries whose intensities all lie between 1 and 5 (and
  that an array can hold: fewer than \<open>2^32\<close> elements), \<open>averageIntensity\<close> is the
  arithmetic mean rounded half up to one decimal place, as the double nearest to that
  decimal, and it lies between 1 and 5.
\<close>

theorem averageIntensity_rounded:
  assumes "entries \<noteq> []" "length entries < 2 ^ 32"
    and "\<forall>e\<in>set entries. 1 \<le> intensity e \<and> intensity e \<le> 5"
  shows "averageIntensity (getMoodStats entries) = fl (roundHalfUp1 (arithmeticMean entries))
       \<and> \<bar>averageIntensity (getMoodStats entries) - roundHalfUp1 (arithmeticMean entries)\<bar>
           \<le> 1 / 2 ^ 50
       \<and> 1 \<le> averageIntensity (getMoodStats entries)
       \<and> averageIntensity (getMoodStats entries) \<le> 5"
proof -
  note v = averageIntensity_value[OF assms]
  from fl_tenths_range[OF v(2) v(3)] show ?thesis
    unfolding v(1) roundHalfUp1_def by simp
qed

theorem averageIntensity_rounded_witness:
  "averageIntensity (getMoodStats exampleEntries)
     = fl (roundHalfUp1 (arithmeticMean exampleEntries))
   \<and> roundHalfUp1 (arithmeticMean exampleEntries) = 13 / 10
   \<and> 1 \<le> averageIntensity (getMoodStats exampleEntries)
   \<and> averageIntensity (getMoodStats exampleEntries) \<le> 5"
proof -
  have 1: "exampleEntries \<noteq> []" "length exampleEntries < 2 ^ 32"
    by (simp_all add: exampleEntries_def)
  have 2: "\<forall>e\<in>set exampleEntries. 1 \<le> intensity e \<and> intensity e \<le> 5"
    by (simp add: exampleEntries_def moodEntryRow_def)
  have 3: "roundHalfUp1 (arithmeticMean exampleEntries) = 13 / 10"
    by (simp add: roundHalfUp1_def arithmeticMean_def exampleEntries_def moodEntryRow_def)
  note t = averageIntensity_rounded[OF 1 2]
  have a: "averageIntensity (getMoodStats exampleEntries)
             = fl (roundHalfUp1 (arithmeticMean exampleEntries))"
    using t by (rule conjunct1)
  have b: "1 \<le> averageIntensity (getMoodStats exampleEntries)"
    and c: "averageIntensity (getMoodStats exampleEntries) \<le> 5"
    using t by blast+
  show ?thesis by (rule conjI[OF a conjI[OF 3 conjI[OF b c]]])
qed

section \<open>Streaks\<close>

lemma day_diff: "(getTime a - getTime b) div msPerDay = a - b"
proof -
  have "getTime a - getTime b = (a - b) * msPerDay" by (simp add: getTime_def left_diff_distrib)
  then show ?thesis by (simp add: msPerDay_def)
qed

text \<open>
  The quotient that \<open>getStreakCount\<close> computes in doubles is the integer quotient
  of the model: the dividend is a multiple of \<open>msPerDay\<close>, and the quotient, a
  number of days, is a double.
\<close>

lemma day_quotient_exact:
  assumes "\<bar>a - b\<bar> < 2 ^ 53"
  shows "Math_floor (js_div (of_int (getTime a - getTime b)) (of_int msPerDay))
           = (getTime a - getTime b) div msPerDay"
proof -
  have "getTime a - getTime b = (a - b) * msPerDay"
    by (simp add: getTime_def left_diff_distrib)
  then have "(of_int (getTime a - getTime b) :: rat) / of_int msPerDay = of_int (a - b)"
    by (simp add: msPerDay_def)
  then have "js_div (of_int (getTime a - getTime b)) (of_int msPerDay) = of_int (a - b)"
    using fl_of_int[OF assms] by (simp add: js_div_def)
  then show ?thesis by (simp add: Math_floor_def day_diff)
qed

lemma sorted_entries_dates:
  assumes "mset (map date es) = mset ds" "sorted (map (\<lambda>d. - getTime d) ds)"
  shows "map date (sort_key (\<lambda>e. - getTime (date e)) es) = ds"
proof -
  let ?g = "\<lambda>d::int. - getTime d"
  let ?s = "sort_key (\<lambda>e. ?g (date e)) es"
  have inj: "inj ?g" by (auto simp: inj_on_def getTime_def msPerDay_def)
  have "mset (map ?g (map date es)) = mset (map ?g ds)"
    using assms(1) by (metis mset_map)
  then have m: "mset (map ?g ds) = mset (map (\<lambda>e. ?g (date e)) es)" by (simp add: comp_def)
  have 1: "sort (map (\<lambda>e. ?g (date e)) es) = map ?g ds"
    using m assms(2) by (rule properties_for_sort)
  have "mset (map (\<lambda>e. ?g (date e)) ?s) = mset (map (\<lambda>e. ?g (date e)) es)" by simp
  moreover have "sorted (map (\<lambda>e. ?g (date e)) ?s)" by (rule sorted_sort_key)
  ultimately have 2: "sort (map (\<lambda>e. ?g (date e)) es) = map (\<lambda>e. ?g (date e)) ?s"
    by (rule properties_for_sort)
  from 1 2 have "map ?g (map date ?s) = map ?g ds" by (simp add: comp_def)
  then show ?thesis using inj by (simp only: inj_map_eq_map)
qed

lemma getStreakCount_dates3:
  assumes "mset (map date es) = {#a, b, c#}" "c \<le> b" "b \<le> a"
  shows "getStreakCount today es =
           (if today - a > 1 then 0
            else if a - b \<le> 1 then (if b - c \<le> 1 then 3 else 2) else 1)"
proof -
  let ?s = "sort_key (\<lambda>e. - getTime (date e)) es"
  have "mset (map date es) = mset [a, b, c]" using assms(1) by simp
  moreover have "sorted (map (\<lambda>d. - getTime d) [a, b, c])"
    using assms(2,3) by (simp add: getTime_def msPerDay_def)
  ultimately have "map date ?s = [a, b, c]" by (rule sorted_entries_dates)
  then obtain e1 e2 e3 where s: "?s = [e1, e2, e3]"
    and d: "date e1 = a" "date e2 = b" "date e3 = c"
    by (auto simp: map_eq_Cons_conv)
  have ne: "es \<noteq> []" using assms(1) by auto
  show ?thesis using ne by (simp add: getStreakCount_def s d day_diff Let_def)
qed

text \<open>
  C2: with one entry per day, the entries of today, yesterday and the day before give
  a streak of 3; a single entry of two days ago gives 0; the entries of today,
  yesterday and three days ago give 2. The order of the entries in the list does not
  matter.
\<close>

theorem streak_scenarios:
  assumes "mset (map date es1) = {#today, today - 1, today - 2#}"
    and "map date es2 = [today - 2]"
    and "mset (map date es3) = {#today, today - 1, today - 3#}"
  shows "getStreakCount today es1 = 3 \<and> getStreakCount today es2 = 0
           \<and> getStreakCount today es3 = 2"
proof -
  have 1: "getStreakCount today es1 = 3"
    using getStreakCount_dates3[of es1 today "today - 1" "today - 2" today] assms(1) by simp
  obtain e where e: "es2 = [e]" "date e = today - 2"
    using assms(2) by (auto simp: map_eq_Cons_conv)
  have 2: "getStreakCount today es2 = 0"
    by (simp add: getStreakCount_def e day_diff)
  have 3: "getStreakCount today es3 = 2"
    using getStreakCount_dates3[of es3 today "today - 1" "today - 3" today] assms(3) by simp
  from 1 2 3 show ?thesis by simp
qed

theorem streak_scenarios_witness:
  "getStreakCount 20000 [moodEntryRow (str ''a'') 19999 Calm 3, moodEntryRow (str ''b'') 20000 Happy 4,
       moodEntryRow (str ''c'') 19998 Sad 2] = 3
   \<and> getStreakCount 20000 [moodEntryRow (str ''c'') 19998 Sad 2] = 0
   \<and> getStreakCount 20000 [moodEntryRow (str ''d'') 19997 Tired 2, moodEntryRow (str ''b'') 20000 Happy 4,
       moodEntryRow (str ''a'') 19999 Calm 3] = 2"
  using streak_scenarios[of "[moodEntryRow (str ''a'') 19999 Calm 3, moodEntryRow (str ''b'') 20000 Happy 4,
       moodEntryRow (str ''c'') 19998 Sad 2]" 20000 "[moodEntryRow (str ''c'') 19998 Sad 2]"
       "[moodEntryRow (str ''d'') 19997 Tired 2, moodEntryRow (str ''b'') 20000 Happy 4,
       moodEntryRow (str ''a'') 19999 Calm 3]"]
  by (simp add: moodEntryRow_def)

text \<open>
  C3: two entries of the same day are counted as two days. The loop adds one for every
  entry whose date is at most one day before the previous one, and a difference of zero
  days passes that test; here the streak is 2 and the entries cover one day.
\<close>

theorem streak_same_day_entries:
  "getStreakCount 20000 [moodEntryRow (str ''a'') 20000 Calm 3, moodEntryRow (str ''b'') 20000 Happy 4] = 2
   \<and> card (date ` set [moodEntryRow (str ''a'') 20000 Calm 3, moodEntryRow (str ''b'') 20000 Happy 4]) = 1"
  by (simp add: getStreakCount_def moodEntryRow_def day_diff)

section \<open>The mood distribution\<close>

lemma increment_sum: "sum_list (map snd (increment d k)) = sum_list (map snd d) + 1"
  by (induction d k rule: increment.induct) auto

lemma increment_keys:
  "map fst (increment d k) = map fst d @ (if k \<in> fst ` set d then [] else [k])"
  by (induction d k rule: increment.induct) auto

lemma increment_positive: "0 \<notin> snd ` set d \<Longrightarrow> 0 \<notin> snd ` set (increment d k)"
  by (induction d k rule: increment.induct) auto

lemma fold_increment_sum:
  "sum_list (map snd (fold (\<lambda>entry d. increment d (mood_type entry)) es d0))
     = sum_list (map snd d0) + length es"
  by (induction es arbitrary: d0) (simp_all add: increment_sum)

lemma fold_increment_keys:
  "fst ` set (fold (\<lambda>entry d. increment d (mood_type entry)) es d0)
     = fst ` set d0 \<union> mood_type ` set es"
proof (induction es arbitrary: d0)
  case Nil
  then show ?case by simp
next
  case (Cons e es)
  have "set (map fst (increment d0 (mood_type e)))
          = set (map fst d0 @ (if mood_type e \<in> fst ` set d0 then [] else [mood_type e]))"
    by (simp only: increment_keys)
  then have "fst ` set (increment d0 (mood_type e)) = insert (mood_type e) (fst ` set d0)"
    by (auto split: if_splits)
  then show ?case by (simp add: Cons.IH)
qed

lemma fold_increment_positive:
  "0 \<notin> snd ` set d0 \<Longrightarrow>
     0 \<notin> snd ` set (fold (\<lambda>entry d. increment d (mood_type entry)) es d0)"
  by (induction es arbitrary: d0) (simp_all add: increment_positive)

text \<open>
  C6: the counts of \<open>moodDistribution\<close> add up to \<open>totalEntries\<close>; its keys are
  exactly the primary moods of the entries, and no count is zero.
\<close>

theorem distribution_total:
  "sum_list (map snd (moodDistribution (getMoodStats entries))) = totalEntries (getMoodStats entries)
   \<and> fst ` set (moodDistribution (getMoodStats entries)) = mood_type ` set entries
   \<and> 0 \<notin> snd ` set (moodDistribution (getMoodStats entries))"
proof (cases "entries = []")
  case True
  then show ?thesis by (simp add: getMoodStats_def)
next
  case False
  then have "moodDistribution (getMoodStats entries) = countMoods entries"
    and "totalEntries (getMoodStats entries) = length entries"
    by (simp_all add: getMoodStats_def Let_def)
  then show ?thesis
    using fold_increment_sum[of entries "[]"] fold_increment_keys[of entries "[]"]
      fold_increment_positive[of "[]" entries]
    by (simp add: countMoods_def)
qed

section \<open>The most common mood\<close>

lemma hd_insort_key:
  "hd (insort_key f a ys) = (if ys = [] \<or> f a \<le> f (hd ys) then a else hd ys)"
  by (cases ys) auto

lemma hd_sort_key_first_min:
  assumes "xs \<noteq> []"
  shows "\<exists>p x q. xs = p @ x # q \<and> hd (sort_key f xs) = x
           \<and> (\<forall>y\<in>set p. f x < f y) \<and> (\<forall>y\<in>set q. f x \<le> f y)"
  using assms
proof (induction xs)
  case Nil
  then show ?case by simp
next
  case (Cons a xs)
  show ?case
  proof (cases "xs = []")
    case True
    then have "a # xs = [] @ a # [] \<and> hd (sort_key f (a # xs)) = a" by simp
    then show ?thesis using True by fastforce
  next
    case False
    from Cons.IH[OF False] obtain p x q where
      IH: "xs = p @ x # q" "hd (sort_key f xs) = x"
          "\<forall>y\<in>set p. f x < f y" "\<forall>y\<in>set q. f x \<le> f y" by blast
    have ne: "sort_key f xs \<noteq> []" using False by (metis length_sort length_0_conv)
    have hd: "hd (sort_key f (a # xs)) = (if f a \<le> f x then a else x)"
      using ne IH(2) by (simp add: hd_insort_key)
    show ?thesis
    proof (cases "f a \<le> f x")
      case True
      have "\<forall>y\<in>set xs. f a \<le> f y" using True IH by (auto simp: less_le)
      moreover have "a # xs = [] @ a # xs" by simp
      moreover have "hd (sort_key f (a # xs)) = a" using hd True by simp
      ultimately show ?thesis by (metis empty_iff list.set(1))
    next
      case False
      then have "f x < f a" by simp
      then have "\<forall>y\<in>set (a # p). f x < f y" using IH(3) by simp
      moreover have "a # xs = (a # p) @ x # q" using IH(1) by simp
      moreover have "hd (sort_key f (a # xs)) = x" using hd False by simp
      ultimately show ?thesis using IH(4) by blast
    qed
  qed
qed

lemma increment_distinct:
  "distinct (map fst d) \<Longrightarrow> distinct (map fst (increment d k))"
  by (simp add: increment_keys)

lemma fold_increment_distinct:
  "distinct (map fst d0) \<Longrightarrow>
     distinct (map fst (fold (\<lambda>entry d. increment d (mood_type entry)) es d0))"
  by (induction es arbitrary: d0) (simp_all add: increment_distinct)

lemma fold_increment_extends:
  "\<exists>extra. map fst (fold (\<lambda>entry d. increment d (mood_type entry)) es d0) = map fst d0 @ extra"
proof (induction es arbitrary: d0)
  case Nil
  then show ?case by simp
next
  case (Cons e es)
  obtain extra where
    "map fst (fold (\<lambda>entry d. increment d (mood_type entry)) es (increment d0 (mood_type e)))
       = map fst (increment d0 (mood_type e)) @ extra"
    using Cons.IH by blast
  then show ?case by (simp add: increment_keys)
qed

lemma countMoods_first_occurrence:
  assumes "map mood_type es = pre @ m # post" "m \<notin> set pre"
  shows "\<exists>ks2. map fst (countMoods es) = map fst (countMoods (take (length pre) es)) @ m # ks2
           \<and> fst ` set (countMoods (take (length pre) es)) = set pre"
proof -
  let ?F = "\<lambda>entry d. increment d (mood_type entry)"
  obtain es1 e es2 where es: "es = es1 @ e # es2" and 1: "map mood_type es1 = pre"
    and e: "mood_type e = m"
    using assms(1) by (auto simp: map_eq_append_conv map_eq_Cons_conv)
  have len: "length es1 = length pre" using 1 by (metis length_map)
  have tk: "take (length pre) es = es1" using es len by simp
  let ?d1 = "fold ?F es1 []"
  have k1: "fst ` set ?d1 = set pre" using fold_increment_keys[of es1 "[]"] 1 by auto
  then have "map fst (increment ?d1 m) = map fst ?d1 @ [m]"
    using assms(2) by (simp add: increment_keys)
  moreover obtain extra where
    "map fst (fold ?F es2 (increment ?d1 m)) = map fst (increment ?d1 m) @ extra"
    using fold_increment_extends by blast
  ultimately have "map fst (countMoods es) = map fst ?d1 @ m # extra"
    by (simp add: countMoods_def es e)
  then show ?thesis using k1 by (simp add: tk countMoods_def)
qed

lemma countOf_member:
  "distinct (map fst d) \<Longrightarrow> (m, c) \<in> set d \<Longrightarrow> countOf d m = c"
  by (simp add: countOf_def)

lemma topMood_hd:
  assumes "d \<noteq> []"
  shows "topMood d = mood_key (fst (hd (sort_key (\<lambda>(k, c). - int c) d)))"
proof -
  have "sort_key (\<lambda>(k, c). - int c) d \<noteq> []" using assms by (metis length_sort length_0_conv)
  then show ?thesis by (auto simp: topMood_def split: list.splits)
qed

text \<open>
  C4: for a non-empty entry list, \<open>mostCommonMood\<close> is the key of a mood \<open>m\<close> that
  occurs in the entries, no mood has a greater count in \<open>moodDistribution\<close>, and every
  mood met before the first occurrence of \<open>m\<close> has a smaller count: among the moods
  with the greatest count, \<open>m\<close> is the first one in the order of the entries.
\<close>

theorem mostCommonMood_first_maximal:
  assumes "entries \<noteq> []"
  shows "\<exists>m pre post.
           mostCommonMood (getMoodStats entries) = mood_key m
         \<and> map mood_type entries = pre @ m # post \<and> m \<notin> set pre
         \<and> (\<forall>m'. countOf (moodDistribution (getMoodStats entries)) m'
                   \<le> countOf (moodDistribution (getMoodStats entries)) m)
         \<and> (\<forall>m'\<in>set pre. countOf (moodDistribution (getMoodStats entries)) m'
                   < countOf (moodDistribution (getMoodStats entries)) m)"
proof -
  define D where "D = countMoods entries"
  have stats: "moodDistribution (getMoodStats entries) = D"
    "mostCommonMood (getMoodStats entries) = topMood D"
    using assms by (simp_all add: getMoodStats_def Let_def D_def)
  have keys: "fst ` set D = mood_type ` set entries"
    using fold_increment_keys[of entries "[]"] by (simp add: D_def countMoods_def)
  have dist: "distinct (map fst D)"
    using fold_increment_distinct[of "[]" entries] by (simp add: D_def countMoods_def)
  have ne: "D \<noteq> []" using keys assms by auto
  obtain p x q where split: "D = p @ x # q"
    and hd: "hd (sort_key (\<lambda>(k, c). - int c) D) = x"
    and before: "\<forall>y\<in>set p. (\<lambda>(k, c). - int c) x < (\<lambda>(k, c). - int c) y"
    and after: "\<forall>y\<in>set q. (\<lambda>(k, c). - int c) x \<le> (\<lambda>(k, c). - int c) y"
    using hd_sort_key_first_min[OF ne, of "\<lambda>(k, c). - int c"] by blast
  obtain m c where x: "x = (m, c)" by (cases x)
  have top: "topMood D = mood_key m" by (simp add: topMood_hd[OF ne] hd x)
  have cm: "countOf D m = c" using dist split x by (intro countOf_member) auto
  have lt: "\<And>k' c'. (k', c') \<in> set p \<Longrightarrow> c' < c" using before x by fastforce
  have le: "\<And>k' c'. (k', c') \<in> set q \<Longrightarrow> c' \<le> c" using after x by fastforce
  have "m \<in> set (map mood_type entries)" using keys split x by (metis fst_conv image_eqI in_set_conv_decomp set_map) 
  then obtain pre post where ms: "map mood_type entries = pre @ m # post" and mpre: "m \<notin> set pre"
    by (meson split_list_first)
  obtain ks2 where ks: "map fst D = map fst (countMoods (take (length pre) entries)) @ m # ks2"
    and kpre: "fst ` set (countMoods (take (length pre) entries)) = set pre"
    using countMoods_first_occurrence[OF ms mpre] unfolding D_def by blast
  have "map fst D = map fst p @ m # map fst q" by (simp add: split x)
  with ks have "map fst p @ m # map fst q = map fst (countMoods (take (length pre) entries)) @ m # ks2"
    by simp
  moreover have "m \<notin> set (map fst p)" "m \<notin> set (map fst q)"
    using dist by (simp_all add: split x)
  ultimately have "map fst p = map fst (countMoods (take (length pre) entries))"
    by (simp add: append_Cons_eq_iff)
  then have pkeys: "fst ` set p = set pre" using kpre by (metis set_map)
  have all: "countOf D m' \<le> countOf D m" for m'
  proof (cases "map_of D m'")
    case None
    then show ?thesis by (simp add: countOf_def)
  next
    case (Some c')
    then have "(m', c') \<in> set D" by (rule map_of_SomeD)
    then have "c' \<le> c" using lt le by (auto simp: split x less_imp_le)
    then show ?thesis using Some cm by (simp add: countOf_def)
  qed
  have early: "countOf D m' < countOf D m" if "m' \<in> set pre" for m'
  proof -
    from that pkeys obtain c' where in_p: "(m', c') \<in> set p" by force
    then have "(m', c') \<in> set D" by (simp add: split)
    then have "countOf D m' = c'" using dist by (rule countOf_member[rotated])
    then show ?thesis using lt[OF in_p] cm by simp
  qed
  show ?thesis
    unfolding stats using top ms mpre all early by blast
qed

theorem mostCommonMood_first_maximal_witness:
  "moodDistribution (getMoodStats exampleEntries) = [(Calm, 2), (Sad, 2)]
   \<and> mostCommonMood (getMoodStats exampleEntries) = mood_key Calm
   \<and> (\<exists>m pre post.
           mostCommonMood (getMoodStats exampleEntries) = mood_key m
         \<and> map mood_type exampleEntries = pre @ m # post \<and> m \<notin> set pre
         \<and> (\<forall>m'. countOf (moodDistribution (getMoodStats exampleEntries)) m'
                   \<le> countOf (moodDistribution (getMoodStats exampleEntries)) m)
         \<and> (\<forall>m'\<in>set pre. countOf (moodDistribution (getMoodStats exampleEntries)) m'
                   < countOf (moodDistribution (getMoodStats exampleEntries)) m))"
proof -
  have ne: "exampleEntries \<noteq> []" by (simp add: exampleEntries_def)
  have d: "moodDistribution (getMoodStats exampleEntries) = [(Calm, 2), (Sad, 2)]"
    by (simp add: getMoodStats_def Let_def countMoods_def exampleEntries_def moodEntryRow_def)
  have t: "mostCommonMood (getMoodStats exampleEntries) = mood_key Calm"
    by (simp add: getMoodStats_def Let_def countMoods_def topMood_def exampleEntries_def
          moodEntryRow_def str_def)
  show ?thesis
    by (rule conjI[OF d conjI[OF t mostCommonMood_first_maximal[OF ne]]])
qed

section \<open>The title of a conversation\<close>

lemma truthy_Some: "truthy (Some s) = (s \<noteq> [])"
  by (simp add: truthy_def)

lemma addMessage_ids:
  "map conv_id (conversations (fst (addMessage db i t tm cid r text)))
     = map conv_id (conversations db)"
  by (simp add: addMessage_def Let_def comp_def if_distrib[of conv_id])

lemma updateConversationTitle_ids:
  "map conv_id (conversations (fst (updateConversationTitle db ok tm cid T)))
     = map conv_id (conversations db)"
  by (simp add: updateConversationTitle_def comp_def if_distrib[of conv_id])

lemma updateConversationTitle_title:
  assumes "c \<in> set (conversations (fst (updateConversationTitle db True tm cid T)))"
    and "conv_id c = cid"
  shows "title c = T"
proof -
  from assms(1) obtain c0 where "c0 \<in> set (conversations db)"
    and c: "c = (if conv_id c0 = cid then c0\<lparr>title := T, updated_at := tm\<rparr> else c0)"
    by (auto simp: updateConversationTitle_def)
  with assms(2) show ?thesis by (cases "conv_id c0 = cid") simp_all
qed

text \<open>
  When the component already holds a conversation and its message list is empty (after
  \<open>createNewConversation\<close>), \<open>saveMessageToDb\<close> does derive the title: the text
  itself if it has at most 50 code units, its first 50 code units followed by three dots
  otherwise.
\<close>

lemma saveMessageToDb_title:
  assumes "isSupabaseConnected st" "currentConversationId st = Some cid" "cid \<noteq> []"
    and "messages st = []" "titleOk outcome" "cid \<in> conv_id ` set (conversations db)"
  shows "(\<forall>c\<in>set (conversations (saveMessageToDb st db outcome tm User text)).
            conv_id c = cid \<longrightarrow>
              title c = (if length text \<le> 50 then text else take 50 text @ str ''...''))
       \<and> cid \<in> conv_id ` set (conversations (saveMessageToDb st db outcome tm User text))
       \<and> (length text = 80 \<longrightarrow>
            (\<forall>c\<in>set (conversations (saveMessageToDb st db outcome tm User text)).
               conv_id c = cid \<longrightarrow> length (title c) = 53 \<and> take 50 (title c) = take 50 text))"
proof -
  define db1 where "db1 = fst (addMessage db (insertOk outcome) (touchOk outcome) tm cid User text)"
  define T where "T = (if length text \<le> 50 then text else take 50 text @ str ''...'')"
  define db2 where "db2 = fst (updateConversationTitle db1 True tm cid T)"
  have T': "(if length text > 50 then take 50 text @ str ''...'' else text) = T"
    by (simp add: T_def)
  have res: "saveMessageToDb st db outcome tm User text = db2"
    using assms(1-5) by (simp add: saveMessageToDb_def truthy_Some Let_def db1_def db2_def T')
  have "set (map conv_id (conversations db2)) = set (map conv_id (conversations db))"
    unfolding db2_def db1_def by (simp only: addMessage_ids updateConversationTitle_ids)
  then have 2: "cid \<in> conv_id ` set (conversations db2)" using assms(6) by simp
  have 1: "title c = T" if "c \<in> set (conversations db2)" "conv_id c = cid" for c
    using that unfolding db2_def by (rule updateConversationTitle_title)
  have 3: "length T = 53 \<and> take 50 T = take 50 text" if "length text = 80"
    using that by (simp add: T_def str_def)
  show ?thesis
    unfolding res T_def[symmetric]
  proof (intro conjI ballI impI)
    fix c assume "c \<in> set (conversations db2)" "conv_id c = cid"
    then show "title c = T" by (rule 1)
  next
    show "cid \<in> conv_id ` set (conversations db2)" by (rule 2)
  next
    fix c assume "length text = 80" "c \<in> set (conversations db2)" "conv_id c = cid"
    then show "length (title c) = 53" using 1 3 by simp
  next
    fix c assume "length text = 80" "c \<in> set (conversations db2)" "conv_id c = cid"
    then show "take 50 (title c) = take 50 text" using 1 3 by simp
  qed
qed

text \<open>
  C7: the first user message of a fresh session does not give the conversation its
  title. \<open>sendMessage\<close> creates the conversation, but \<open>saveMessageToDb\<close> still sees
  the \<open>currentConversationId\<close> of the render, which is \<open>null\<close>, and returns
  before it stores the message or derives the title. On the next turn the message list
  is no longer empty, so the title is not derived then either: the conversation keeps
  the title \<open>New Conversation\<close>, and the first exchange is never stored.
\<close>

theorem first_message_title_not_derived:
  "sendMessage freshState emptyStore replyingEnv \<noteq> None
   \<and> map content (messages (fst firstTurn)) = [str ''Hello world'', str ''Hi there'']
   \<and> currentConversationId (fst firstTurn) = Some (str ''c2'')
   \<and> map title (conversations (snd firstTurn)) = [str ''New Conversation'']
   \<and> messages_table (snd firstTurn) = []
   \<and> map title (conversations (snd secondTurn)) = [str ''New Conversation'']
   \<and> map db_content (messages_table (snd secondTurn)) = [str ''Second message'', str ''Hi there'']"
  by code_simp

section \<open>Canned responses and routing\<close>

lemma double_below_one:
  assumes "isDouble r" "0 \<le> r" "r < 1"
  shows "r \<le> 1 - 1 / 2 ^ 53"
proof (cases "r = 0")
  case True
  then show ?thesis by simp
next
  case False
  with assms have r: "0 < r" by simp
  define e where "e = expo r"
  have b: "2 powi e \<le> r" "r < 2 powi (e + 1)" using expo_bounds[OF r] by (simp_all add: e_def)
  have "(2::rat) powi e < 2 powi 0" using b(1) assms(3) by simp
  then have e: "e < 0" by (metis power_int_increasing not_less one_le_numeral)
  show ?thesis
  proof (cases "e = -1")
    case True
    define M where "M = round_even (r / 2 powi (e - 52))"
    have "fl r = of_int M * 2 powi (e - 52)" by (simp add: fl_pos[OF r] e_def M_def)
    also have "(2::rat) powi (e - 52) = 1 / 2 ^ 53" by (simp add: True power_int_def field_simps)
    finally have rM: "r = of_int M / 2 ^ 53" using assms(1) by (simp add: isDouble_def)
    then have "of_int M < (2 ^ 53 :: rat)" using assms(3) by (simp add: divide_less_eq)
    then have "of_int M < (of_int (2 ^ 53) :: rat)" by simp
    then have "M < 2 ^ 53" by (simp only: of_int_less_iff)
    then have "M \<le> 2 ^ 53 - 1" by simp
    then have "(of_int M :: rat) \<le> of_int (2 ^ 53 - 1)" by (simp only: of_int_le_iff)
    then have "(of_int M :: rat) \<le> 2 ^ 53 - 1" by simp
    then show ?thesis by (simp add: rM field_simps)
  next
    case False
    with e have "e + 1 \<le> -1" by simp
    then have "(2::rat) powi (e + 1) \<le> 2 powi (-1)" by (intro power_int_increasing) auto
    also have "\<dots> = 1 / 2" by (simp add: power_int_def field_simps)
    finally show ?thesis using b(2) by simp
  qed
qed

lemma random_index:
  assumes "isDouble r" "0 \<le> r" "r < 1" "0 < n"
  shows "0 \<le> Math_floor (js_mul r (of_nat n)) \<and> Math_floor (js_mul r (of_nat n)) < int n"
proof (cases "r = 0")
  case True
  then show ?thesis using assms(4) by (simp add: js_mul_def Math_floor_def fl_def)
next
  case False
  with assms have r: "0 < r" by simp
  have x: "(0::rat) < r * of_nat n" using r assms(4) by simp
  have r1: "r \<le> 1 - 1 / 9007199254740992" using double_below_one[OF assms(1-3)] by simp
  define X :: rat where "X = r * of_nat n"
  define Nn :: rat where "Nn = of_nat n"
  have Nn: "0 < Nn" using assms(4) by (simp add: Nn_def)
  have "r * Nn \<le> (1 - 1 / 9007199254740992) * Nn"
    using r1 Nn by (intro mult_right_mono) auto
  then have 1: "X \<le> Nn - Nn / 9007199254740992" by (simp add: X_def Nn_def algebra_simps)
  have 2: "fl X - X \<le> X / 9007199254740992" using fl_rel(1)[OF x] by (simp only: X_def)
  have "fl X < Nn" using 1 2 Nn by linarith
  then have up: "fl (r * of_nat n) < of_nat n" by (simp only: X_def Nn_def)
  have "0 \<le> fl (r * of_nat n)" using x by (intro fl_nonneg) simp
  then have "0 \<le> \<lfloor>fl (r * of_nat n)\<rfloor>" by simp
  moreover have "\<lfloor>fl (r * of_nat n)\<rfloor> < int n" using up by (simp add: floor_less_iff)
  ultimately show ?thesis by (simp add: js_mul_def Math_floor_def)
qed

lemma pick_member:
  assumes "isDouble r" "0 \<le> r" "r < 1" "responses \<noteq> []"
  shows "\<exists>t\<in>set responses. pick responses r = Some t"
proof -
  have n: "0 < length responses" using assms(4) by simp
  note i = random_index[OF assms(1-3) n]
  then have "nat (Math_floor (js_mul r (of_nat (length responses)))) < length responses"
    by (simp add: nat_less_iff)
  then have "responses ! nat (Math_floor (js_mul r (of_nat (length responses)))) \<in> set responses"
    by (rule nth_mem)
  then show ?thesis using i by (simp add: pick_def Let_def)
qed

lemma responses_nonempty:
  "moodResponses \<noteq> []" "storyResponses \<noteq> []" "voiceResponses \<noteq> []"
  "contentResponses \<noteq> []" "generalResponses \<noteq> []"
  by (simp_all add: moodResponses_def storyResponses_def voiceResponses_def
        contentResponses_def generalResponses_def)

lemma fallbackTexts_nonempty: "[] \<notin> set fallbackTexts"
  by (simp add: fallbackTexts_def moodResponses_def storyResponses_def voiceResponses_def
        contentResponses_def generalResponses_def helpResponse_def str_def)

lemma mood_key_nonempty: "mood_key m \<noteq> []"
  by (cases m) (simp_all add: str_def)

lemma pick_single:
  assumes "isDouble r" "0 \<le> r" "r < 1"
  shows "pick [x] r = Some x"
  using pick_member[OF assms, of "[x]"] by simp

lemma generateFallbackResponse_pick:
  assumes "isDouble r" "0 \<le> r" "r < 1"
  shows "generateFallbackResponse userInput mood r = pick (fallbackBucket userInput mood) r"
  by (simp add: generateFallbackResponse_def fallbackBucket_def mentions_def Let_def
        pick_single[OF assms])

lemma fallbackBucket_nonempty: "fallbackBucket userInput mood \<noteq> []"
  by (simp add: fallbackBucket_def responses_nonempty)

lemma fallbackBucket_texts: "set (fallbackBucket userInput mood) \<subseteq> set fallbackTexts"
  by (auto simp: fallbackBucket_def fallbackTexts_def)

lemma generateFallbackResponse_bucket:
  assumes "isDouble r" "0 \<le> r" "r < 1"
  shows "\<exists>t\<in>set (fallbackBucket userInput mood).
           generateFallbackResponse userInput mood r = Some t \<and> t \<noteq> []"
proof -
  obtain t where t: "t \<in> set (fallbackBucket userInput mood)"
    "pick (fallbackBucket userInput mood) r = Some t"
    using pick_member[OF assms fallbackBucket_nonempty] by blast
  have "t \<noteq> []" using t(1) fallbackBucket_texts fallbackTexts_nonempty by blast
  then show ?thesis using t by (auto simp: generateFallbackResponse_pick[OF assms])
qed

lemma fallbackBucket_mood: "m \<noteq> [] \<Longrightarrow> fallbackBucket userInput (Some m) = moodResponses"
  by (simp add: fallbackBucket_def truthy_def)

text \<open>
  The two messages that a turn with a non-blank input appends, given the text that the
  \<open>try\<close> block and its \<open>catch\<close> arrive at.
\<close>

lemma sendMessage_messages:
  assumes "trim (input st) \<noteq> []" "\<not> isLoading st"
    and "assistantContent st env (trim (input st)) = Some t"
  shows "\<exists>st' db'. sendMessage st db env = Some (st', db')
          \<and> messages st' =
             messages st @
               [\<lparr> msg_id = sendTime env, role = User, content = trim (input st),
                   timestamp = sendTime env \<rparr>,
                \<lparr> msg_id = replyTime env + 1, role = Assistant, content = t,
                   timestamp = replyTime env \<rparr>]"
  using assms by (simp add: sendMessage_def Let_def split_def)

text \<open>
  C8: in advanced mode, with the entry of today fetched from the database and an input
  that contains \<open>feel\<close> or \<open>mood\<close> in any case, the turn asks for a supportive
  response with the mood and intensity of that entry, also when the input contains a
  keyword of the creative path. The input \<open>I feel overwhelmed\<close> is such an input, and
  it contains none of the creative keywords.
\<close>

theorem supportive_route:
  assumes "useAdvancedMode st" "isSupabaseConnected st"
    and "js_includes (toLowerCase text) (str ''feel'') \<or> js_includes (toLowerCase text) (str ''mood'')"
  shows "requestFor st (Some entry) text
           = SupportiveResponse text (mood_type entry) (intensity entry)
       \<and> requestFor st (Some entry) (str ''I feel overwhelmed'')
           = SupportiveResponse (str ''I feel overwhelmed'') (mood_type entry) (intensity entry)
       \<and> \<not> js_includes (toLowerCase (str ''I feel overwhelmed'')) (str ''story'')
       \<and> \<not> js_includes (toLowerCase (str ''I feel overwhelmed'')) (str ''script'')
       \<and> \<not> js_includes (toLowerCase (str ''I feel overwhelmed'')) (str ''narrat'')"
proof -
  have 1: "js_includes (toLowerCase (str ''I feel overwhelmed'')) (str ''feel'')" by code_simp
  have 2: "\<not> js_includes (toLowerCase (str ''I feel overwhelmed'')) (str ''story'')"
    "\<not> js_includes (toLowerCase (str ''I feel overwhelmed'')) (str ''script'')"
    "\<not> js_includes (toLowerCase (str ''I feel overwhelmed'')) (str ''narrat'')"
    by code_simp+
  have "requestFor st (Some entry) text
           = SupportiveResponse text (mood_type entry) (intensity entry)"
    using assms by (simp add: requestFor_def Let_def)
  moreover have "requestFor st (Some entry) (str ''I feel overwhelmed'')
           = SupportiveResponse (str ''I feel overwhelmed'') (mood_type entry) (intensity entry)"
    using assms(1,2) 1 by (simp add: requestFor_def Let_def)
  ultimately show ?thesis using 2 by simp
qed

theorem supportive_route_witness:
  "requestFor exampleState (Some exampleMood) (str ''My MOOD is low, tell me a story'')
     = SupportiveResponse (str ''My MOOD is low, tell me a story'') Anxious 4
   \<and> requestFor exampleState (Some exampleMood) (str ''I feel overwhelmed'')
     = SupportiveResponse (str ''I feel overwhelmed'') Anxious 4"
proof -
  have 1: "useAdvancedMode exampleState" "isSupabaseConnected exampleState"
    by (simp_all add: exampleState_def)
  have 2: "js_includes (toLowerCase (str ''My MOOD is low, tell me a story'')) (str ''feel'')
           \<or> js_includes (toLowerCase (str ''My MOOD is low, tell me a story'')) (str ''mood'')"
    by code_simp
  have 3: "mood_type exampleMood = Anxious" "intensity exampleMood = 4"
    by (simp_all add: exampleMood_def moodEntryRow_def)
  from supportive_route[OF 1 2, of exampleMood] show ?thesis by (simp add: 3)
qed

text \<open>
  C9: a turn with a non-blank input always ends with a user message and an assistant
  message whose text is not empty, and \<open>sendMessage\<close> has no other outcome: no error
  leaves it. When the generation throws, the text is what \<open>generateFallbackResponse\<close>
  answers for the input and the mood of today, and it comes from the bucket of the
  topic that the input matches; when the generation returns a blank text, the same
  with no mood handed over; otherwise the text is the trimmed reply.
\<close>

theorem generation_failure_fallback:
  assumes "isDouble (randomValue env)" "0 \<le> randomValue env" "randomValue env < 1"
    and "trim (input st) \<noteq> []" "\<not> isLoading st"
  shows "\<exists>st' db' t.
           sendMessage st db env = Some (st', db')
         \<and> messages st' =
             messages st @
               [\<lparr> msg_id = sendTime env, role = User, content = trim (input st),
                   timestamp = sendTime env \<rparr>,
                \<lparr> msg_id = replyTime env + 1, role = Assistant, content = t,
                   timestamp = replyTime env \<rparr>]
         \<and> t \<noteq> []
         \<and> (generate env (requestFor st (moodAtSend env) (trim (input st))) = Threw \<longrightarrow>
               generateFallbackResponse (trim (input st))
                 (map_option (\<lambda>entry. mood_key (mood_type entry))
                    (if isSupabaseConnected st then moodAtFailure env else None))
                 (randomValue env) = Some t
             \<and> t \<in> set (fallbackBucket (trim (input st))
                   (map_option (\<lambda>entry. mood_key (mood_type entry))
                      (if isSupabaseConnected st then moodAtFailure env else None))))
         \<and> (\<forall>s. generate env (requestFor st (moodAtSend env) (trim (input st))) = Returned s \<longrightarrow>
               (if trim s = []
                then generateFallbackResponse (trim (input st)) None (randomValue env) = Some t
                   \<and> t \<in> set (fallbackBucket (trim (input st)) None)
                else t = trim s))"
proof (cases "generate env (requestFor st (moodAtSend env) (trim (input st)))")
  case Threw
  define moodArg where "moodArg = map_option (\<lambda>entry. mood_key (mood_type entry))
    (if isSupabaseConnected st then moodAtFailure env else None)"
  obtain t where t: "t \<in> set (fallbackBucket (trim (input st)) moodArg)"
    "generateFallbackResponse (trim (input st)) moodArg (randomValue env) = Some t" "t \<noteq> []"
    using generateFallbackResponse_bucket[OF assms(1-3)] by blast
  have "assistantContent st env (trim (input st)) = Some t"
    using Threw t(2) by (simp add: assistantContent_def Let_def moodArg_def)
  from sendMessage_messages[OF assms(4,5) this] show ?thesis
    using t Threw unfolding moodArg_def by auto
next
  case (Returned s)
  show ?thesis
  proof (cases "trim s = []")
    case True
    obtain t where t: "t \<in> set (fallbackBucket (trim (input st)) None)"
      "generateFallbackResponse (trim (input st)) None (randomValue env) = Some t" "t \<noteq> []"
      using generateFallbackResponse_bucket[OF assms(1-3)] by blast
    have "assistantContent st env (trim (input st)) = Some t"
      using Returned True t(2) by (simp add: assistantContent_def Let_def)
    from sendMessage_messages[OF assms(4,5) this] show ?thesis
      using t Returned True by auto
  next
    case False
    have "assistantContent st env (trim (input st)) = Some (trim s)"
      using Returned False by (simp add: assistantContent_def Let_def)
    from sendMessage_messages[OF assms(4,5) this] show ?thesis
      using Returned False by auto
  qed
qed

theorem generation_failure_fallback_witness:
  "map content (messages (fst (the (sendMessage storyState exampleStore blankEnv))))
     = [str ''Tell me a story'', storyResponses ! 2]
   \<and> fallbackBucket (trim (input storyState)) None = storyResponses
   \<and> (\<exists>st' db' t.
           sendMessage storyState exampleStore blankEnv = Some (st', db')
         \<and> messages st' =
             messages storyState @
               [\<lparr> msg_id = sendTime blankEnv, role = User,
                   content = trim (input storyState), timestamp = sendTime blankEnv \<rparr>,
                \<lparr> msg_id = replyTime blankEnv + 1, role = Assistant, content = t,
                   timestamp = replyTime blankEnv \<rparr>]
         \<and> t \<noteq> []
         \<and> (generate blankEnv
               (requestFor storyState (moodAtSend blankEnv) (trim (input storyState))) = Threw \<longrightarrow>
               generateFallbackResponse (trim (input storyState))
                 (map_option (\<lambda>entry. mood_key (mood_type entry))
                    (if isSupabaseConnected storyState then moodAtFailure blankEnv else None))
                 (randomValue blankEnv) = Some t
             \<and> t \<in> set (fallbackBucket (trim (input storyState))
                   (map_option (\<lambda>entry. mood_key (mood_type entry))
                      (if isSupabaseConnected storyState then moodAtFailure blankEnv else None))))
         \<and> (\<forall>s. generate blankEnv
                 (requestFor storyState (moodAtSend blankEnv) (trim (input storyState)))
                 = Returned s \<longrightarrow>
               (if trim s = []
                then generateFallbackResponse (trim (input storyState)) None
                       (randomValue blankEnv) = Some t
                   \<and> t \<in> set (fallbackBucket (trim (input storyState)) None)
                else t = trim s)))"
proof -
  have 1: "isDouble (randomValue blankEnv)" by code_simp
  have 2: "0 \<le> randomValue blankEnv" "randomValue blankEnv < 1"
    by (simp_all add: blankEnv_def failingEnv_def)
  have 3: "trim (input storyState) \<noteq> []" by code_simp
  have 4: "\<not> isLoading storyState" by (simp add: storyState_def exampleState_def)
  have 5: "map content (messages (fst (the (sendMessage storyState exampleStore blankEnv))))
             = [str ''Tell me a story'', storyResponses ! 2]"
    by code_simp
  have 6: "fallbackBucket (trim (input storyState)) None = storyResponses"
    by code_simp
  show ?thesis
    by (rule conjI[OF 5 conjI[OF 6 generation_failure_fallback[OF 1 2 3 4]]])
qed

text \<open>
  C10, as amended: called with a mood argument, \<open>generateFallbackResponse\<close> answers
  with one of \<open>moodResponses\<close>, whatever the input says. The orchestrator hands the
  mood of today over when the generation throws, so the assistant text is then one of
  \<open>moodResponses\<close>; after a blank reply it hands no mood over, and the text is what
  \<open>generateFallbackResponse\<close> answers for the input alone.
\<close>

theorem mood_argument_selects_mood_bucket:
  assumes "isDouble r" "0 \<le> r" "r < 1"
  shows "(\<exists>t\<in>set moodResponses.
            generateFallbackResponse userInput (Some (mood_key m)) r = Some t)
       \<and> (randomValue env = r \<and> trim (input st) \<noteq> [] \<and> \<not> isLoading st
            \<and> isSupabaseConnected st \<and> moodAtFailure env = Some entry
            \<and> generate env (requestFor st (moodAtSend env) (trim (input st))) = Threw
          \<longrightarrow> (\<exists>st' db' t.
                 sendMessage st db env = Some (st', db')
               \<and> messages st' =
                   messages st @
                     [\<lparr> msg_id = sendTime env, role = User, content = trim (input st),
                         timestamp = sendTime env \<rparr>,
                      \<lparr> msg_id = replyTime env + 1, role = Assistant, content = t,
                         timestamp = replyTime env \<rparr>]
               \<and> t \<in> set moodResponses))
       \<and> (\<forall>s. randomValue env = r \<and> trim (input st) \<noteq> [] \<and> \<not> isLoading st
            \<and> generate env (requestFor st (moodAtSend env) (trim (input st))) = Returned s
            \<and> trim s = []
          \<longrightarrow> (\<exists>st' db' t.
                 sendMessage st db env = Some (st', db')
               \<and> messages st' =
                   messages st @
                     [\<lparr> msg_id = sendTime env, role = User, content = trim (input st),
                         timestamp = sendTime env \<rparr>,
                      \<lparr> msg_id = replyTime env + 1, role = Assistant, content = t,
                         timestamp = replyTime env \<rparr>]
               \<and> generateFallbackResponse (trim (input st)) None r = Some t))"
proof (intro conjI impI allI)
  show "\<exists>t\<in>set moodResponses.
          generateFallbackResponse userInput (Some (mood_key m)) r = Some t"
    using generateFallbackResponse_bucket[OF assms, of userInput "Some (mood_key m)"]
    by (auto simp: fallbackBucket_mood[OF mood_key_nonempty])
next
  assume h: "randomValue env = r \<and> trim (input st) \<noteq> [] \<and> \<not> isLoading st
            \<and> isSupabaseConnected st \<and> moodAtFailure env = Some entry
            \<and> generate env (requestFor st (moodAtSend env) (trim (input st))) = Threw"
  obtain t where t: "t \<in> set moodResponses"
    "generateFallbackResponse (trim (input st)) (Some (mood_key (mood_type entry))) r = Some t"
    using generateFallbackResponse_bucket[OF assms, of "trim (input st)"
        "Some (mood_key (mood_type entry))"]
    by (auto simp: fallbackBucket_mood[OF mood_key_nonempty])
  have "assistantContent st env (trim (input st)) = Some t"
    using h t(2) by (simp add: assistantContent_def Let_def)
  from sendMessage_messages[OF _ _ this] h t(1)
  show "\<exists>st' db' t.
          sendMessage st db env = Some (st', db')
        \<and> messages st' =
            messages st @
              [\<lparr> msg_id = sendTime env, role = User, content = trim (input st),
                  timestamp = sendTime env \<rparr>,
               \<lparr> msg_id = replyTime env + 1, role = Assistant, content = t,
                  timestamp = replyTime env \<rparr>]
        \<and> t \<in> set moodResponses"
    by blast
next
  fix s
  assume h: "randomValue env = r \<and> trim (input st) \<noteq> [] \<and> \<not> isLoading st
            \<and> generate env (requestFor st (moodAtSend env) (trim (input st))) = Returned s
            \<and> trim s = []"
  obtain t where t: "generateFallbackResponse (trim (input st)) None r = Some t"
    using generateFallbackResponse_bucket[OF assms, of "trim (input st)" None] by blast
  have "assistantContent st env (trim (input st)) = Some t"
    using h t by (simp add: assistantContent_def Let_def)
  from sendMessage_messages[OF _ _ this] h t
  show "\<exists>st' db' t.
          sendMessage st db env = Some (st', db')
        \<and> messages st' =
            messages st @
              [\<lparr> msg_id = sendTime env, role = User, content = trim (input st),
                  timestamp = sendTime env \<rparr>,
               \<lparr> msg_id = replyTime env + 1, role = Assistant, content = t,
                  timestamp = replyTime env \<rparr>]
        \<and> generateFallbackResponse (trim (input st)) None r = Some t"
    by blast
qed

theorem mood_argument_selects_mood_bucket_witness:
  "generateFallbackResponse (str ''write me a story script'') (Some (mood_key Happy)) (1 / 2)
     = Some (moodResponses ! 2)
   \<and> map content (messages (fst (the (sendMessage storyState exampleStore failingEnv))))
     = [str ''Tell me a story'', moodResponses ! 2]
   \<and> (\<exists>t\<in>set moodResponses.
         generateFallbackResponse (str ''write me a story script'') (Some (mood_key Happy)) (1 / 2)
           = Some t)
   \<and> (\<exists>st' db' t.
         sendMessage storyState exampleStore failingEnv = Some (st', db')
       \<and> messages st' =
           messages storyState @
             [\<lparr> msg_id = sendTime failingEnv, role = User, content = trim (input storyState),
                 timestamp = sendTime failingEnv \<rparr>,
              \<lparr> msg_id = replyTime failingEnv + 1, role = Assistant, content = t,
                 timestamp = replyTime failingEnv \<rparr>]
       \<and> t \<in> set moodResponses)"
proof -
  have c: "isDouble (1 / 2)" "(0::rat) \<le> 1 / 2" "(1 / 2 :: rat) < 1" by code_simp+
  note T = mood_argument_selects_mood_bucket[OF c, of "str ''write me a story script''" Happy
      failingEnv storyState exampleMood exampleStore]
  have h: "randomValue failingEnv = 1 / 2 \<and> trim (input storyState) \<noteq> []
         \<and> \<not> isLoading storyState \<and> isSupabaseConnected storyState
         \<and> moodAtFailure failingEnv = Some exampleMood
         \<and> generate failingEnv
             (requestFor storyState (moodAtSend failingEnv) (trim (input storyState))) = Threw"
    by code_simp
  have 1: "generateFallbackResponse (str ''write me a story script'') (Some (mood_key Happy))
             (1 / 2) = Some (moodResponses ! 2)"
    by code_simp
  have 2: "map content (messages (fst (the (sendMessage storyState exampleStore failingEnv))))
             = [str ''Tell me a story'', moodResponses ! 2]"
    by code_simp
  from T have 3: "\<exists>t\<in>set moodResponses.
         generateFallbackResponse (str ''write me a story script'') (Some (mood_key Happy)) (1 / 2)
           = Some t"
    by (rule conjunct1)
  from T h have 4: "\<exists>st' db' t.
         sendMessage storyState exampleStore failingEnv = Some (st', db')
       \<and> messages st' =
           messages storyState @
             [\<lparr> msg_id = sendTime failingEnv, role = User, content = trim (input storyState),
                 timestamp = sendTime failingEnv \<rparr>,
              \<lparr> msg_id = replyTime failingEnv + 1, role = Assistant, content = t,
                 timestamp = replyTime failingEnv \<rparr>]
       \<and> t \<in> set moodResponses"
    by blast
  show ?thesis by (rule conjI[OF 1 conjI[OF 2 conjI[OF 3 4]]])
qed

text \<open>
  C10, as stated, fails on the other kind of generation failure: with a mood recorded
  for today and an input about a story, a reply of blanks makes the orchestrator call
  \<open>generateFallbackResponse\<close> without the mood, and the answer comes from
  \<open>storyResponses\<close>.
\<close>

theorem blank_reply_ignores_mood:
  "isSupabaseConnected storyState
   \<and> moodAtSend blankEnv = Some exampleMood
   \<and> moodAtFailure blankEnv = Some exampleMood
   \<and> generate blankEnv (requestFor storyState (moodAtSend blankEnv) (trim (input storyState)))
       = Returned (str ''   '')
   \<and> trim (str ''   '') = []
   \<and> map content (messages (fst (the (sendMessage storyState exampleStore blankEnv))))
       = [str ''Tell me a story'', storyResponses ! 2]
   \<and> storyResponses ! 2 \<notin> set moodResponses"
  by code_simp

end
